theory Spec2Isabelle
  imports Main
begin

section \<open>Text as Python has it\<close>

text \<open>
  A Python \<open>str\<close> is a sequence of Unicode code points, and every index, length and
  neighbour test of the scrapers counts code points. A character is therefore a natural
  number (its code point) and a string a list of them.
\<close>

type_synonym uchar = nat
type_synonym ustr = "uchar list"

text \<open>
  The Unicode case tables, the table of decimal digits and \<open>urllib.parse.unquote\<close>
  belong to the Python library, not to the repository. Their behaviour on ASCII is written
  out below; beyond ASCII they are the fields of a parameter \<open>L\<close> that every function
  using them takes, so that each theorem holds whatever the tables are.
  \<^item> \<open>lower_at s i\<close>: the lowercase of the non-ASCII character at index \<open>i\<close> of \<open>s\<close>
    (the context matters for capital sigma only);
  \<^item> \<open>upper_of c\<close>: the uppercase of the non-ASCII character \<open>c\<close> (it may be several
    characters);
  \<^item> \<open>decimal c\<close>: the digit value of the non-ASCII character \<open>c\<close> when it is a decimal
    digit (category Nd);
  \<^item> \<open>unquote s\<close>: the percent-decoding of \<open>s\<close>.
\<close>

record pylib =
  lower_at :: "ustr \<Rightarrow> nat \<Rightarrow> ustr"
  upper_of :: "uchar \<Rightarrow> ustr"
  decimal :: "uchar \<Rightarrow> nat option"
  unquote :: "ustr \<Rightarrow> ustr"

definition ascii_lower :: "uchar \<Rightarrow> uchar" where
  "ascii_lower c = (if 65 \<le> c \<and> c \<le> 90 then c + 32 else c)"

definition ascii_upper :: "uchar \<Rightarrow> uchar" where
  "ascii_upper c = (if 97 \<le> c \<and> c \<le> 122 then c - 32 else c)"

fun lower_from :: "pylib \<Rightarrow> ustr \<Rightarrow> nat \<Rightarrow> ustr \<Rightarrow> ustr" where
  "lower_from L s i [] = []"
| "lower_from L s i (c # cs) =
     (if c < 128 then [ascii_lower c] else lower_at L s i) @ lower_from L s (Suc i) cs"

definition py_lower :: "pylib \<Rightarrow> ustr \<Rightarrow> ustr" where
  "py_lower L s = lower_from L s 0 s"

definition py_upper :: "pylib \<Rightarrow> ustr \<Rightarrow> ustr" where
  "py_upper L s = concat (map (\<lambda>c. if c < 128 then [ascii_upper c] else upper_of L c) s)"

text \<open>\<open>str.isspace\<close> on one character: the Unicode whitespace characters.\<close>

definition py_isspace :: "uchar \<Rightarrow> bool" where
  "py_isspace c \<longleftrightarrow>
     (9 \<le> c \<and> c \<le> 13) \<or> (28 \<le> c \<and> c \<le> 32) \<or> c = 133 \<or> c = 160 \<or> c = 5760 \<or>
     (8192 \<le> c \<and> c \<le> 8202) \<or> c = 8232 \<or> c = 8233 \<or> c = 8239 \<or> c = 8287 \<or>
     c = 12288"

text \<open>\<open>s.strip()\<close>: whitespace removed at both ends.\<close>

definition py_strip :: "ustr \<Rightarrow> ustr" where
  "py_strip s = rev (dropWhile py_isspace (rev (dropWhile py_isspace s)))"

text \<open>
  The library on ASCII text: no non-ASCII character has a case or is a digit, and nothing
  is percent-decoded. It is what Python computes on strings of ASCII characters without
  \<open>%\<close>, and serves to evaluate the model on such strings.
\<close>

definition ascii_lib :: pylib where
  "ascii_lib = \<lparr> lower_at = (\<lambda>s i. [s ! i]), upper_of = (\<lambda>c. [c]),
                 decimal = (\<lambda>c. None), unquote = (\<lambda>s. s) \<rparr>"

text \<open>A string literal of the source, as code points.\<close>

definition asc :: "string \<Rightarrow> ustr" where
  "asc s = map of_char s"

text \<open>\<open>s.startswith(p)\<close>\<close>

definition startswith :: "ustr \<Rightarrow> ustr \<Rightarrow> bool" where
  "startswith p s \<longleftrightarrow> take (length p) s = p"

text \<open>\<open>s.find(sub)\<close>: the index of the first occurrence, \<open>None\<close> for \<open>-1\<close>.\<close>

fun find_from :: "ustr \<Rightarrow> nat \<Rightarrow> ustr \<Rightarrow> nat option" where
  "find_from sub i [] = (if sub = [] then Some i else None)"
| "find_from sub i (c # cs) =
     (if startswith sub (c # cs) then Some i else find_from sub (Suc i) cs)"

definition py_find :: "ustr \<Rightarrow> ustr \<Rightarrow> nat option" where
  "py_find sub s = find_from sub 0 s"

text \<open>\<open>sub in s\<close>\<close>

definition is_substr :: "ustr \<Rightarrow> ustr \<Rightarrow> bool" where
  "is_substr sub s \<longleftrightarrow> py_find sub s \<noteq> None"

text \<open>\<open>s[i:j]\<close> for \<open>0 \<le> i\<close> and \<open>0 \<le> j\<close>\<close>

definition slice :: "ustr \<Rightarrow> nat \<Rightarrow> nat \<Rightarrow> ustr" where
  "slice s i j = take (j - i) (drop i s)"

text \<open>
  \<open>s.replace(old, new)\<close> for a non-empty \<open>old\<close>: the occurrences are found from left to
  right and do not overlap. The counter holds the characters of the occurrence just
  replaced that are still to be skipped.
\<close>

fun replace_skip :: "ustr \<Rightarrow> ustr \<Rightarrow> nat \<Rightarrow> ustr \<Rightarrow> ustr" where
  "replace_skip old new k [] = []"
| "replace_skip old new (Suc k) (c # cs) = replace_skip old new k cs"
| "replace_skip old new 0 (c # cs) =
     (if startswith old (c # cs) then new @ replace_skip old new (length old - 1) cs
      else c # replace_skip old new 0 cs)"

definition py_replace :: "ustr \<Rightarrow> ustr \<Rightarrow> ustr \<Rightarrow> ustr" where
  "py_replace old new s = replace_skip old new 0 s"

text \<open>
  \<open>s.split(sep)\<close> for a non-empty \<open>sep\<close>: the pieces between the occurrences of
  \<open>sep\<close>, empty pieces included; \<open>cur\<close> is the piece being read.
\<close>

fun split_skip :: "ustr \<Rightarrow> nat \<Rightarrow> ustr \<Rightarrow> ustr \<Rightarrow> ustr list" where
  "split_skip sep k cur [] = [cur]"
| "split_skip sep (Suc k) cur (c # cs) = split_skip sep k cur cs"
| "split_skip sep 0 cur (c # cs) =
     (if startswith sep (c # cs) then cur # split_skip sep (length sep - 1) [] cs
      else split_skip sep 0 (cur @ [c]) cs)"

definition py_split_sep :: "ustr \<Rightarrow> ustr \<Rightarrow> ustr list" where
  "py_split_sep sep s = split_skip sep 0 [] s"

text \<open>\<open>s.split()\<close>: the maximal runs of characters that are not whitespace.\<close>

fun split_ws :: "ustr \<Rightarrow> ustr \<Rightarrow> ustr list" where
  "split_ws cur [] = (if cur = [] then [] else [cur])"
| "split_ws cur (c # cs) =
     (if py_isspace c then (if cur = [] then split_ws [] cs else cur # split_ws [] cs)
      else split_ws (cur @ [c]) cs)"

definition py_split :: "ustr \<Rightarrow> ustr list" where
  "py_split s = split_ws [] s"

text \<open>\<open>sep.join(parts)\<close>\<close>

fun py_join :: "ustr \<Rightarrow> ustr list \<Rightarrow> ustr" where
  "py_join sep [] = []"
| "py_join sep [x] = x"
| "py_join sep (x # y # ys) = x @ sep @ py_join sep (y # ys)"

section \<open>The regular expressions of the source\<close>

text \<open>
  Every pattern of the scrapers is a sequence of single characters, character classes,
  repetitions of one class (greedy or lazy), groups that are neither nested nor repeated,
  and an optional final \<open>$\<close>. Such a pattern is a list of items; \<open>Mark\<close> stands for a
  parenthesis of a group.
\<close>

datatype cclass =
    Chr uchar            \<comment> \<open>the character itself\<close>
  | ChrI uchar           \<comment> \<open>the character, under \<open>re.IGNORECASE\<close>\<close>
  | OneOf "uchar list"   \<comment> \<open>\<open>[...]\<close>\<close>
  | NoneOf "uchar list"  \<comment> \<open>\<open>[^...]\<close>; \<open>.\<close> without \<open>re.DOTALL\<close> is \<open>NoneOf [10]\<close>\<close>
  | Range uchar uchar    \<comment> \<open>\<open>[a-b]\<close>\<close>
  | AnyChar              \<comment> \<open>\<open>.\<close> under \<open>re.DOTALL\<close>\<close>
  | WSpace               \<comment> \<open>\<open>\s\<close>\<close>
  | Digit                \<comment> \<open>\<open>\d\<close>\<close>

datatype ritem =
    One cclass           \<comment> \<open>one character of the class\<close>
  | Rep cclass nat bool  \<comment> \<open>at least \<open>n\<close> characters of the class; greedy when \<open>True\<close>\<close>
  | Mark                 \<comment> \<open>\<open>(\<close> or \<open>)\<close>\<close>
  | Eos                  \<comment> \<open>\<open>$\<close>\<close>

text \<open>\<open>\d\<close> on a \<open>str\<close> pattern: the ASCII digits and the other decimal digits.\<close>

definition py_isdecimal :: "pylib \<Rightarrow> uchar \<Rightarrow> bool" where
  "py_isdecimal L c \<longleftrightarrow> (48 \<le> c \<and> c \<le> 57) \<or> (128 \<le> c \<and> decimal L c \<noteq> None)"

text \<open>
  A character \<open>x\<close> of a pattern compiled with \<open>re.IGNORECASE\<close> against a character \<open>c\<close>
  of the text. An ASCII letter matches both of its cases, and \<open>i\<close>, \<open>s\<close> and \<open>k\<close> match
  the four non-ASCII letters that fold to them (U+0130, U+0131, U+017F, U+212A). The other
  characters of the source's patterns (ASCII punctuation and digits, CJK ideographs) have
  no case and match themselves only.
\<close>

definition ci_match :: "uchar \<Rightarrow> uchar \<Rightarrow> bool" where
  "ci_match x c \<longleftrightarrow>
     (if (65 \<le> x \<and> x \<le> 90) \<or> (97 \<le> x \<and> x \<le> 122)
      then ascii_lower c = ascii_lower x
           \<or> (ascii_lower x = 105 \<and> (c = 304 \<or> c = 305))
           \<or> (ascii_lower x = 115 \<and> c = 383)
           \<or> (ascii_lower x = 107 \<and> c = 8490)
      else c = x)"

fun in_class :: "pylib \<Rightarrow> cclass \<Rightarrow> uchar \<Rightarrow> bool" where
  "in_class L (Chr x) c \<longleftrightarrow> c = x"
| "in_class L (ChrI x) c \<longleftrightarrow> ci_match x c"
| "in_class L (OneOf xs) c \<longleftrightarrow> c \<in> set xs"
| "in_class L (NoneOf xs) c \<longleftrightarrow> c \<notin> set xs"
| "in_class L (Range a b) c \<longleftrightarrow> a \<le> c \<and> c \<le> b"
| "in_class L AnyChar c \<longleftrightarrow> True"
| "in_class L WSpace c \<longleftrightarrow> py_isspace c"
| "in_class L Digit c \<longleftrightarrow> py_isdecimal L c"

text \<open>
  \<open>rmatch L p s ms\<close> matches the pattern \<open>p\<close> at the start of \<open>s\<close> the way Python's
  backtracking matcher does, and returns the marks together with the text left after the
  match: at each parenthesis the text not yet read is recorded. A repetition of a class can
  stop after any number \<open>j\<close> of characters from its minimum \<open>n\<close> up to the length \<open>k\<close> of
  the run of characters of the class that begins there; \<open>rtry\<close> tries the rest of the
  pattern after \<open>j\<close> characters and, when that fails, goes on to the next count: a greedy
  repetition starts with the longest and goes down, a lazy one starts with the shortest
  and goes up. \<open>$\<close> matches at the end of the text and before a final newline.
\<close>

function rmatch :: "pylib \<Rightarrow> ritem list \<Rightarrow> ustr \<Rightarrow> ustr list \<Rightarrow> (ustr list \<times> ustr) option"
  and rtry :: "pylib \<Rightarrow> ritem list \<Rightarrow> ustr \<Rightarrow> ustr list \<Rightarrow> bool \<Rightarrow> nat \<Rightarrow> nat \<Rightarrow> nat
                 \<Rightarrow> (ustr list \<times> ustr) option" where
  "rmatch L [] s ms = Some (ms, s)"
| "rmatch L (One cl # p) s ms =
     (case s of [] \<Rightarrow> None
      | c # cs \<Rightarrow> if in_class L cl c then rmatch L p cs ms else None)"
| "rmatch L (Rep cl n greedy # p) s ms =
     (if length (takeWhile (in_class L cl) s) < n then None
      else rtry L p s ms greedy n (length (takeWhile (in_class L cl) s))
             (if greedy then length (takeWhile (in_class L cl) s) else n))"
| "rmatch L (Mark # p) s ms = rmatch L p s (ms @ [s])"
| "rmatch L (Eos # p) s ms = (if s = [] \<or> s = [10] then rmatch L p s ms else None)"
| "rtry L p s ms greedy n k j =
     (case rmatch L p (drop j s) ms of
        Some r \<Rightarrow> Some r
      | None \<Rightarrow>
          if greedy then (if n < j then rtry L p s ms greedy n k (j - 1) else None)
          else (if j < k then rtry L p s ms greedy n k (Suc j) else None))"
  by pat_completeness auto
termination
  by (relation "measures
        [\<lambda>x. case x of Inl (L, p, s, ms) \<Rightarrow> length p | Inr (L, p, s, ms, g, n, k, j) \<Rightarrow> length p,
         \<lambda>x. case x of Inl (L, p, s, ms) \<Rightarrow> 0
              | Inr (L, p, s, ms, g, n, k, j) \<Rightarrow> Suc (if g then j else k - j)]")
     auto

text \<open>Group \<open>k\<close> (counted from 0) of a match: the text between its two marks.\<close>

definition grp :: "ustr list \<Rightarrow> nat \<Rightarrow> ustr" where
  "grp ms k =
     (if 2 * k + 1 < length ms
      then take (length (ms ! (2 * k)) - length (ms ! (2 * k + 1))) (ms ! (2 * k))
      else [])"

text \<open>
  \<open>re.search\<close>: the match at the leftmost position that has one, as the position and the
  marks.
\<close>

fun rsearch_from :: "pylib \<Rightarrow> ritem list \<Rightarrow> nat \<Rightarrow> ustr \<Rightarrow> (nat \<times> ustr list) option" where
  "rsearch_from L p i [] = (case rmatch L p [] [] of None \<Rightarrow> None | Some (ms, r) \<Rightarrow> Some (i, ms))"
| "rsearch_from L p i (c # cs) =
     (case rmatch L p (c # cs) [] of
        Some (ms, r) \<Rightarrow> Some (i, ms)
      | None \<Rightarrow> rsearch_from L p (Suc i) cs)"

definition rsearch :: "pylib \<Rightarrow> ritem list \<Rightarrow> ustr \<Rightarrow> ustr list option" where
  "rsearch L p s = map_option snd (rsearch_from L p 0 s)"

text \<open>
  \<open>re.finditer\<close>: the matches from left to right, each search starting where the match
  before ended; a match is given as its start, its end and its marks. No pattern of the
  source matches the empty string; after such a match the scan would move one character on.
\<close>

function rscan :: "pylib \<Rightarrow> ritem list \<Rightarrow> nat \<Rightarrow> ustr \<Rightarrow> (nat \<times> nat \<times> ustr list) list" where
  "rscan L p i s =
     (case rmatch L p s [] of
        Some (ms, r) \<Rightarrow>
          (if length r < length s
           then (i, i + (length s - length r), ms) # rscan L p (i + (length s - length r)) r
           else (i, i, ms) # (case s of [] \<Rightarrow> [] | c # cs \<Rightarrow> rscan L p (Suc i) cs))
      | None \<Rightarrow> (case s of [] \<Rightarrow> [] | c # cs \<Rightarrow> rscan L p (Suc i) cs))"
  by pat_completeness auto
termination
  by (relation "measure (\<lambda>(L, p, i, s). length s)") auto

definition finditer :: "pylib \<Rightarrow> ritem list \<Rightarrow> ustr \<Rightarrow> (nat \<times> nat \<times> ustr list) list" where
  "finditer L p s = rscan L p 0 s"

text \<open>\<open>re.findall\<close> for a pattern with one group, and for a pattern with none.\<close>

definition findall_group :: "pylib \<Rightarrow> ritem list \<Rightarrow> ustr \<Rightarrow> ustr list" where
  "findall_group L p s = map (\<lambda>(i, j, ms). grp ms 0) (finditer L p s)"

definition findall_whole :: "pylib \<Rightarrow> ritem list \<Rightarrow> ustr \<Rightarrow> ustr list" where
  "findall_whole L p s = map (\<lambda>(i, j, ms). slice s i j) (finditer L p s)"

text \<open>\<open>re.sub(p, repl, s)\<close> for a replacement without group references.\<close>

definition rsub :: "pylib \<Rightarrow> ritem list \<Rightarrow> ustr \<Rightarrow> ustr \<Rightarrow> ustr" where
  "rsub L p repl s =
     (let ms = finditer L p s;
          starts = 0 # map (\<lambda>(i, j, m). j) ms;
          stops = map (\<lambda>(i, j, m). i) ms @ [length s]
      in py_join repl (map (\<lambda>(a, b). slice s a b) (zip starts stops)))"

text \<open>The characters of a literal as items, with and without \<open>re.IGNORECASE\<close>.\<close>

definition lit :: "string \<Rightarrow> ritem list" where
  "lit s = map (\<lambda>c. One (Chr (of_char c))) s"

definition litI :: "string \<Rightarrow> ritem list" where
  "litI s = map (\<lambda>c. One (ChrI (of_char c))) s"

section \<open>Exceptions, \<open>float\<close> and \<open>int\<close>\<close>

text \<open>
  The exceptions that the modelled code can raise; all of them are subclasses of
  \<open>Exception\<close>. A computation that may raise returns \<open>Inl\<close> of the exception.
\<close>

datatype error =
  ValueError | AttributeError | OverflowError | TypeError | FileNotFoundError | OSError

text \<open>
  A Python \<open>float\<close> is an IEEE 754 binary64 number. \<open>Finite m e\<close> is the number
  \<open>m * 2 ^ e\<close>; the sign of a zero is not kept, no operation of the source looks at it.
\<close>

datatype dbl = Finite int int | Infinity bool | NaN

text \<open>The number of binary digits of a natural number.\<close>

function bit_length :: "nat \<Rightarrow> nat" where
  "bit_length n = (if n = 0 then 0 else Suc (bit_length (n div 2)))"
  by pat_completeness auto
termination
  by (relation "measure id") auto

text \<open>
  \<open>round_ratio neg n d\<close> is the binary64 number nearest to the fraction \<open>n / d\<close> (for
  \<open>0 < d\<close>), negated when \<open>neg\<close>: round to nearest, ties to even. \<open>ex\<close> is the exponent
  of the leading binary digit of \<open>n / d\<close> and \<open>q\<close> the exponent of the last digit kept: 53
  digits are kept, fewer below the normal range (\<open>q\<close> is never below \<open>-1074\<close>). A result
  of \<open>2 ^ 1024\<close> or more is an infinity.
\<close>

definition round_ratio :: "bool \<Rightarrow> nat \<Rightarrow> nat \<Rightarrow> dbl" where
  "round_ratio neg n d =
     (if n = 0 then Finite 0 0
      else
        let b = int (bit_length n) - int (bit_length d);
            ex = (if n * 2 ^ nat (- b) \<ge> d * 2 ^ nat b then b else b - 1);
            q = max (ex - 52) (- 1074);
            num = n * 2 ^ nat (- q);
            den = d * 2 ^ nat q;
            k = num div den;
            r = num mod den;
            m = (if 2 * r < den then k
                 else if 2 * r > den then k + 1
                 else if even k then k else k + 1)
        in if q > 971 \<or> (q = 971 \<and> m \<ge> 2 ^ 53) then Infinity neg
           else Finite (if neg then - int m else int m) q)"

text \<open>The product of two floats: the exact product, rounded.\<close>

fun fmul :: "dbl \<Rightarrow> dbl \<Rightarrow> dbl" where
  "fmul (Finite m1 e1) (Finite m2 e2) =
     round_ratio (m1 * m2 < 0) (nat \<bar>m1 * m2\<bar> * 2 ^ nat (e1 + e2)) (2 ^ nat (- (e1 + e2)))"
| "fmul (Finite m e) (Infinity neg) = (if m = 0 then NaN else Infinity (neg \<noteq> (m < 0)))"
| "fmul (Infinity neg) (Finite m e) = (if m = 0 then NaN else Infinity (neg \<noteq> (m < 0)))"
| "fmul (Infinity n1) (Infinity n2) = Infinity (n1 \<noteq> n2)"
| "fmul NaN y = NaN"
| "fmul x NaN = NaN"

text \<open>\<open>float(n)\<close> for the integers 1000, 1000000 and 1000000000, which are floats exactly.\<close>

definition of_small_int :: "int \<Rightarrow> dbl" where
  "of_small_int n = Finite n 0"

text \<open>
  \<open>int(x)\<close> for a float: the fraction is cut off (towards zero); an infinity raises
  \<open>OverflowError\<close> and a NaN \<open>ValueError\<close>.
\<close>

fun py_int :: "dbl \<Rightarrow> error + int" where
  "py_int (Finite m e) =
     Inr (if e \<ge> 0 then m * 2 ^ nat e
          else if m \<ge> 0 then m div 2 ^ nat (- e) else - ((- m) div 2 ^ nat (- e)))"
| "py_int (Infinity neg) = Inl OverflowError"
| "py_int NaN = Inl ValueError"

text \<open>
  \<open>float(s)\<close> for a string. The string is first brought to ASCII: a non-ASCII space
  becomes a blank, a non-ASCII decimal digit its ASCII digit, and at any other character
  from 127 on the string is cut and ends in \<open>?\<close>.
\<close>

definition is_adigit :: "uchar \<Rightarrow> bool" where
  "is_adigit c \<longleftrightarrow> 48 \<le> c \<and> c \<le> 57"

fun to_ascii :: "pylib \<Rightarrow> ustr \<Rightarrow> ustr" where
  "to_ascii L [] = []"
| "to_ascii L (c # cs) =
     (if c < 127 then c # to_ascii L cs
      else if py_isspace c then 32 # to_ascii L cs
      else (case decimal L c of None \<Rightarrow> [63] | Some v \<Rightarrow> (48 + v) # to_ascii L cs))"

text \<open>The whitespace that \<open>float\<close> skips at both ends of the ASCII string.\<close>

definition c_isspace :: "uchar \<Rightarrow> bool" where
  "c_isspace c \<longleftrightarrow> (9 \<le> c \<and> c \<le> 13) \<or> c = 32"

definition c_strip :: "ustr \<Rightarrow> ustr" where
  "c_strip s = rev (dropWhile c_isspace (rev (dropWhile c_isspace s)))"

text \<open>
  An underscore is allowed between two digits only; \<open>drop_underscores prev s\<close> removes
  the underscores of \<open>s\<close>, \<open>prev\<close> being the character before, and fails on a misplaced
  one.
\<close>

fun drop_underscores :: "uchar \<Rightarrow> ustr \<Rightarrow> ustr option" where
  "drop_underscores prev [] = (if prev = 95 then None else Some [])"
| "drop_underscores prev (c # cs) =
     (if c = 95 then (if is_adigit prev then drop_underscores c cs else None)
      else if prev = 95 \<and> \<not> is_adigit c then None
      else map_option ((#) c) (drop_underscores c cs))"

definition digits_val :: "ustr \<Rightarrow> nat" where
  "digits_val ds = foldl (\<lambda>a c. 10 * a + (c - 48)) 0 ds"

text \<open>
  An unsigned decimal numeral: digits, an optional point and digits (a digit on one side
  of the point at least), an optional exponent. The result \<open>(m, x)\<close> stands for
  \<open>m * 10 ^ x\<close>.
\<close>

definition parse_exponent :: "ustr \<Rightarrow> int option" where
  "parse_exponent t =
     (let neg = (case t of c # u \<Rightarrow> c = 45 | [] \<Rightarrow> False);
          ds = (case t of c # u \<Rightarrow> if c = 43 \<or> c = 45 then u else t | [] \<Rightarrow> t)
      in if ds \<noteq> [] \<and> list_all is_adigit ds
         then Some (if neg then - int (digits_val ds) else int (digits_val ds))
         else None)"

definition parse_decimal :: "ustr \<Rightarrow> (nat \<times> int) option" where
  "parse_decimal s =
     (let ip = takeWhile is_adigit s;
          r1 = dropWhile is_adigit s;
          fp = (case r1 of c # t \<Rightarrow> if c = 46 then takeWhile is_adigit t else [] | [] \<Rightarrow> []);
          r2 = (case r1 of c # t \<Rightarrow> if c = 46 then dropWhile is_adigit t else r1 | [] \<Rightarrow> [])
      in if ip = [] \<and> fp = [] then None
         else (case r2 of
                 [] \<Rightarrow> Some (digits_val (ip @ fp), - int (length fp))
               | c # t \<Rightarrow>
                   if c = 69 \<or> c = 101
                   then map_option (\<lambda>x. (digits_val (ip @ fp), x - int (length fp)))
                          (parse_exponent t)
                   else None))"

text \<open>The float of \<open>m * 10 ^ x\<close>, negated when \<open>neg\<close>: the conversion is correctly rounded.\<close>

definition round_dec :: "bool \<Rightarrow> nat \<Rightarrow> int \<Rightarrow> dbl" where
  "round_dec neg m x = round_ratio neg (m * 10 ^ nat x) (10 ^ nat (- x))"

definition py_float :: "pylib \<Rightarrow> ustr \<Rightarrow> error + dbl" where
  "py_float L s =
     (case drop_underscores 0 (c_strip (to_ascii L s)) of
        None \<Rightarrow> Inl ValueError
      | Some v \<Rightarrow>
          let neg = (case v of c # u \<Rightarrow> c = 45 | [] \<Rightarrow> False);
              w = (case v of c # u \<Rightarrow> if c = 43 \<or> c = 45 then u else v | [] \<Rightarrow> v);
              lw = map ascii_lower w
          in if lw = asc ''inf'' \<or> lw = asc ''infinity'' then Inr (Infinity neg)
             else if lw = asc ''nan'' then Inr NaN
             else (case parse_decimal w of
                     None \<Rightarrow> Inl ValueError
                   | Some (m, x) \<Rightarrow> Inr (round_dec neg m x)))"

section \<open>ModelScope records\<close>

text \<open>
  \<open>model_info\<close> is the dictionary that \<open>extract_model_info_from_link\<close> fills: every key
  is optional, \<open>downloads\<close> and \<open>stars\<close> hold integers and the others strings.
\<close>

record model_info =
  mi_link :: "ustr option"
  mi_id :: "ustr option"
  mi_organization :: "ustr option"
  mi_name :: "ustr option"
  mi_description :: "ustr option"
  mi_time :: "ustr option"
  mi_downloads :: "int option"
  mi_stars :: "int option"
  mi_task_types :: "ustr option"

definition empty_info :: model_info where
  "empty_info = \<lparr> mi_link = None, mi_id = None, mi_organization = None, mi_name = None,
                  mi_description = None, mi_time = None, mi_downloads = None,
                  mi_stars = None, mi_task_types = None \<rparr>"

text \<open>\<open>d.get(k, "")\<close>, and the truth value of \<open>d.get(k)\<close> for a string field.\<close>

definition get_str :: "ustr option \<Rightarrow> ustr" where
  "get_str v = (case v of None \<Rightarrow> [] | Some s \<Rightarrow> s)"

definition truthy :: "ustr option \<Rightarrow> bool" where
  "truthy v \<longleftrightarrow> get_str v \<noteq> []"

section \<open>\<open>extract_model_info_from_link\<close>\<close>

subsection \<open>The patterns\<close>

text \<open>\<open>href=["\']([^"\']+)["\']\<close>\<close>

definition re_href :: "ritem list" where
  "re_href = lit ''href='' @ [One (OneOf [34, 39]), Mark, Rep (NoneOf [34, 39]) 1 True, Mark,
                               One (OneOf [34, 39])]"

text \<open>\<open>c4=([^&]+)\<close>\<close>

definition re_c4 :: "ritem list" where
  "re_c4 = lit ''c4='' @ [Mark, Rep (NoneOf [38]) 1 True, Mark]"

text \<open>\<open><[^>]+>\<close>\<close>

definition re_tag :: "ritem list" where
  "re_tag = lit ''<'' @ [Rep (NoneOf [62]) 1 True] @ lit ''>''"

text \<open>
  \<open><tag[^>]*class="[^"]*cls[^"]*"[^>]*>(.*?)</tag>\<close> with \<open>re.DOTALL | re.IGNORECASE\<close>,
  for the tags \<open>span\<close> and \<open>div\<close> and the classes \<open>ms-title-font\<close>, \<open>title\<close> and
  \<open>desc\<close>.
\<close>

definition re_classed :: "string \<Rightarrow> string \<Rightarrow> ritem list" where
  "re_classed tag cls =
     litI ''<'' @ litI tag @ [Rep (NoneOf [62]) 0 True] @ litI ''class='' @ [One (ChrI 34)] @
     [Rep (NoneOf [34]) 0 True] @ litI cls @ [Rep (NoneOf [34]) 0 True] @ [One (ChrI 34)] @
     [Rep (NoneOf [62]) 0 True] @ litI ''>'' @ [Mark, Rep AnyChar 0 False, Mark] @
     litI ''</'' @ litI tag @ litI ''>''"

text \<open>\<open>[\u4e00-\u9fff]+\<close>\<close>

definition re_chinese :: "ritem list" where
  "re_chinese = [Rep (Range 19968 40959) 1 True]"

text \<open>
  The two patterns of a metric, for the icon \<open>icon\<close>, with \<open>re.DOTALL | re.IGNORECASE\<close>:
  \<open>xlink:href="#icon"[^>]*>.*?</use></svg></span>([^<]+)</div>\<close> and
  \<open>#icon"[^>]*>.*?</use>.*?</svg>.*?</span>([^<]+)</div>\<close>.
\<close>

definition re_icon_strict :: "string \<Rightarrow> ritem list" where
  "re_icon_strict icon =
     litI ''xlink:href='' @ [One (ChrI 34)] @ litI ''#'' @ litI icon @ [One (ChrI 34)] @
     [Rep (NoneOf [62]) 0 True] @ litI ''>'' @ [Rep AnyChar 0 False] @
     litI ''</use></svg></span>'' @ [Mark, Rep (NoneOf [60]) 1 True, Mark] @ litI ''</div>''"

definition re_icon_loose :: "string \<Rightarrow> ritem list" where
  "re_icon_loose icon =
     litI ''#'' @ litI icon @ [One (ChrI 34)] @ [Rep (NoneOf [62]) 0 True] @ litI ''>'' @
     [Rep AnyChar 0 False] @ litI ''</use>'' @ [Rep AnyChar 0 False] @ litI ''</svg>'' @
     [Rep AnyChar 0 False] @ litI ''</span>'' @ [Mark, Rep (NoneOf [60]) 1 True, Mark] @
     litI ''</div>''"

text \<open>\<open>re.escape(keyword)\<close> with \<open>re.IGNORECASE\<close>\<close>

definition re_keyword :: "ustr \<Rightarrow> ritem list" where
  "re_keyword kw = map (\<lambda>c. One (ChrI c)) kw"

subsection \<open>Link, identifier and organisation\<close>

text \<open>The rule for \<open>href\<close> (lines 36-50).\<close>

definition href_rule :: "pylib \<Rightarrow> ustr \<Rightarrow> model_info \<Rightarrow> model_info" where
  "href_rule L link_html mi =
     (case rsearch L re_href link_html of
        None \<Rightarrow> mi
      | Some ms \<Rightarrow>
          let href = py_strip (grp ms 0) in
          if startswith (asc ''/models/'') href then
            let model_path = py_replace (asc ''/models/'') [] href;
                mi1 = mi\<lparr>mi_link := Some (asc ''https://modelscope.cn'' @ href),
                         mi_id := Some model_path\<rparr>;
                parts = py_split_sep (asc ''/'') model_path
            in if length parts \<ge> 2 then mi1\<lparr>mi_organization := Some (parts ! 0)\<rparr> else mi1
          else mi\<lparr>mi_link := Some href\<rparr>)"

text \<open>The rule for \<open>c4\<close> in \<open>data-autolog\<close> (lines 52-64).\<close>

definition c4_rule :: "pylib \<Rightarrow> ustr \<Rightarrow> model_info \<Rightarrow> model_info" where
  "c4_rule L link_html mi =
     (case rsearch L re_c4 link_html of
        None \<Rightarrow> mi
      | Some ms \<Rightarrow>
          let c4_value = unquote L (grp ms 0) in
          if is_substr (asc ''/'') c4_value then
            let parts = py_split_sep (asc ''/'') c4_value in
            if length parts \<ge> 2 then
              let mi1 = (if mi_organization mi = None
                         then mi\<lparr>mi_organization := Some (parts ! 0)\<rparr> else mi)
              in (if mi_id mi1 = None then mi1\<lparr>mi_id := Some c4_value\<rparr> else mi1)
            else mi
          else mi)"

subsection \<open>Name and description\<close>

text \<open>
  \<open>all_text\<close>: every tag replaced by a blank, then the whitespace normalised
  (lines 81-82 and 222-223).
\<close>

definition flatten :: "pylib \<Rightarrow> ustr \<Rightarrow> ustr" where
  "flatten L link_html = py_join (asc '' '') (py_split (rsub L re_tag (asc '' '') link_html))"

text \<open>The task keywords that are no names (lines 89-93).\<close>

definition name_stoplist :: "ustr list" where
  "name_stoplist =
     [[25991, 26412, 29983, 25104, 22270, 29255],
      [25991, 26412, 29983, 25104, 35270, 39057],
      [35270, 35273, 22810, 27169, 24577, 29702, 35299],
      [32479, 19968, 22810, 27169, 24577],
      [25991, 26412, 29983, 25104],
      [22270, 20687, 25551, 36848],
      [35821, 38899, 21512, 25104],
      [22270, 20687, 20998, 31867],
      [30446, 26631, 26816, 27979],
      [25991, 26412, 21040, 22270, 20687],
      [22270, 20687, 21040, 25991, 26412],
      [35270, 39057, 29983, 25104],
      [38899, 39057, 29983, 25104],
      [22810, 27169, 24577, 29702, 35299]]"

definition title_match :: "pylib \<Rightarrow> ustr \<Rightarrow> ustr list option" where
  "title_match L link_html =
     (case rsearch L (re_classed ''span'' ''ms-title-font'') link_html of
        Some ms \<Rightarrow> Some ms
      | None \<Rightarrow>
          (case rsearch L (re_classed ''span'' ''title'') link_html of
             Some ms \<Rightarrow> Some ms
           | None \<Rightarrow> rsearch L (re_classed ''div'' ''title'') link_html))"

text \<open>
  The first run of ideographs that is no task keyword, has two characters at least and
  begins within the first 200 characters of the text (lines 96-104).
\<close>

definition chinese_name :: "pylib \<Rightarrow> ustr \<Rightarrow> ustr option" where
  "chinese_name L all_text =
     find (\<lambda>t. t \<notin> set name_stoplist \<and> length t \<ge> 2 \<and>
                (case py_find t all_text of Some pos \<Rightarrow> pos < 200 | None \<Rightarrow> False))
          (findall_whole L re_chinese all_text)"

definition name_rule :: "pylib \<Rightarrow> ustr \<Rightarrow> model_info \<Rightarrow> model_info" where
  "name_rule L link_html mi =
     (case title_match L link_html of
        Some ms \<Rightarrow>
          if py_strip (rsub L re_tag [] (grp ms 0)) \<noteq> []
          then mi\<lparr>mi_name := Some (py_strip (rsub L re_tag [] (grp ms 0)))\<rparr> else mi
      | None \<Rightarrow>
          (case chinese_name L (flatten L link_html) of
             Some name \<Rightarrow> mi\<lparr>mi_name := Some name\<rparr>
           | None \<Rightarrow>
               (case mi_id mi of
                  None \<Rightarrow> mi
                | Some i \<Rightarrow>
                    if length (py_split_sep (asc ''/'') i) \<ge> 2
                    then mi\<lparr>mi_name := Some (last (py_split_sep (asc ''/'') i))\<rparr>
                    else mi)))"

definition desc_rule :: "pylib \<Rightarrow> ustr \<Rightarrow> model_info \<Rightarrow> model_info" where
  "desc_rule L link_html mi =
     (case rsearch L (re_classed ''div'' ''desc'') link_html of
        None \<Rightarrow> mi
      | Some ms \<Rightarrow>
          let desc_text = py_strip (rsub L re_tag [] (grp ms 0)) in
          if desc_text \<noteq> [] then mi\<lparr>mi_description := Some desc_text\<rparr> else mi)"

subsection \<open>Time, downloads and stars\<close>

text \<open>The text after an icon, stripped: the strict pattern first, then the loose one.\<close>

definition icon_text :: "pylib \<Rightarrow> string \<Rightarrow> ustr \<Rightarrow> ustr option" where
  "icon_text L icon link_html =
     (case (case rsearch L (re_icon_strict icon) link_html of
              None \<Rightarrow> rsearch L (re_icon_loose icon) link_html
            | Some ms \<Rightarrow> Some ms) of
        None \<Rightarrow> None
      | Some ms \<Rightarrow> Some (py_strip (grp ms 0)))"

definition time_rule :: "pylib \<Rightarrow> ustr \<Rightarrow> model_info \<Rightarrow> model_info" where
  "time_rule L link_html mi =
     (case icon_text L ''icon-maasshijian-time-line1'' link_html of
        None \<Rightarrow> mi
      | Some time_text \<Rightarrow> if time_text \<noteq> [] then mi\<lparr>mi_time := Some time_text\<rparr> else mi)"

text \<open>
  The conversion of a count (lines 162-175, and again lines 194-207): the text in upper
  case; with a \<open>K\<close> in it the float of the text without \<open>K\<close> times 1000, else the same with
  \<open>M\<close> and 1000000, else with \<open>B\<close> and 1000000000, else the float of the text; the integer
  part of the result. \<open>ValueError\<close> and \<open>AttributeError\<close> are caught and leave no value;
  any other exception goes on to the handler of the whole function.
\<close>

definition scaled :: "pylib \<Rightarrow> ustr \<Rightarrow> ustr \<Rightarrow> ustr \<Rightarrow> int \<Rightarrow> error + int" where
  "scaled L s up lo mult =
     (case py_float L (py_replace lo [] (py_replace up [] s)) of
        Inl e \<Rightarrow> Inl e
      | Inr x \<Rightarrow> py_int (fmul x (of_small_int mult)))"

definition parse_magnitude :: "pylib \<Rightarrow> ustr \<Rightarrow> error + int option" where
  "parse_magnitude L text =
     (let s = py_upper L text;
          r = (if is_substr (asc ''K'') s then scaled L s (asc ''K'') (asc ''k'') 1000
               else if is_substr (asc ''M'') s then scaled L s (asc ''M'') (asc ''m'') 1000000
               else if is_substr (asc ''B'') s
                    then scaled L s (asc ''B'') (asc ''b'') 1000000000
               else (case py_float L s of Inl e \<Rightarrow> Inl e | Inr x \<Rightarrow> py_int x))
      in case r of
           Inr n \<Rightarrow> Inr (Some n)
         | Inl e \<Rightarrow> if e = ValueError \<or> e = AttributeError then Inr None else Inl e)"

definition downloads_rule :: "pylib \<Rightarrow> ustr \<Rightarrow> model_info \<Rightarrow> error + model_info" where
  "downloads_rule L link_html mi =
     (case icon_text L ''icon-maasa-zhuangtai216x16'' link_html of
        None \<Rightarrow> Inr mi
      | Some downloads_text \<Rightarrow>
          if downloads_text = [] then Inr mi
          else (case parse_magnitude L downloads_text of
                  Inl e \<Rightarrow> Inl e
                | Inr None \<Rightarrow> Inr mi
                | Inr (Some n) \<Rightarrow> Inr (mi\<lparr>mi_downloads := Some n\<rparr>)))"

definition stars_rule :: "pylib \<Rightarrow> ustr \<Rightarrow> model_info \<Rightarrow> error + model_info" where
  "stars_rule L link_html mi =
     (case icon_text L ''icon-maasa-shoucangzhuangtai216x16'' link_html of
        None \<Rightarrow> Inr mi
      | Some stars_text \<Rightarrow>
          if stars_text = [] then Inr mi
          else (case parse_magnitude L stars_text of
                  Inl e \<Rightarrow> Inl e
                | Inr None \<Rightarrow> Inr mi
                | Inr (Some n) \<Rightarrow> Inr (mi\<lparr>mi_stars := Some n\<rparr>)))"

subsection \<open>The task type\<close>

text \<open>The task keywords in the order of the source (lines 213-218).\<close>

definition task_keywords :: "ustr list" where
  "task_keywords =
     [[25991, 23383, 29983, 25104, 22270, 29255],
      [25991, 26412, 29983, 25104, 22270, 29255],
      [25991, 23383, 29983, 25104, 35270, 39057],
      [25991, 26412, 29983, 25104, 35270, 39057],
      [35270, 35273, 22810, 27169, 24577, 29702, 35299],
      [32479, 19968, 22810, 27169, 24577],
      [25991, 26412, 21040, 22270, 20687],
      [22270, 20687, 21040, 25991, 26412],
      [25991, 23383, 29983, 25104],
      [25991, 26412, 29983, 25104],
      [22270, 20687, 25551, 36848],
      [35821, 38899, 21512, 25104],
      [22270, 20687, 20998, 31867],
      [30446, 26631, 26816, 27979],
      [35270, 39057, 29983, 25104],
      [38899, 39057, 29983, 25104],
      [22810, 27169, 24577, 29702, 35299]]"

text \<open>The punctuation marks of the boundary test, and the range of the ideographs.\<close>

definition punct_marks :: ustr where
  "punct_marks = [65292, 12290, 12289, 65307, 65306, 65281, 65311]"

definition is_cjk :: "uchar \<Rightarrow> bool" where
  "is_cjk c \<longleftrightarrow> 19968 \<le> c \<and> c \<le> 40959"

definition is_before_valid :: "ustr \<Rightarrow> nat \<Rightarrow> bool" where
  "is_before_valid all_text start =
     (let before_char = (if start > 0 then all_text ! (start - 1) else 32)
      in start = 0 \<or> py_isspace before_char \<or> before_char \<in> set punct_marks \<or>
         is_cjk before_char)"

definition is_after_valid :: "ustr \<Rightarrow> nat \<Rightarrow> bool" where
  "is_after_valid all_text end =
     (let after_char = (if end < length all_text then all_text ! end else 32)
      in end \<ge> length all_text \<or> py_isspace after_char \<or> after_char \<in> set punct_marks \<or>
         is_cjk after_char)"

text \<open>
  The three tests against \<open>matched_positions\<close> (lines 243-248, 267-271 and 276-305),
  the positions being given as a list of pairs.
\<close>

definition is_in_matched_range :: "(nat \<times> nat) list \<Rightarrow> nat \<Rightarrow> nat \<Rightarrow> bool" where
  "is_in_matched_range mp start end =
     list_ex (\<lambda>(matched_start, matched_end). start \<ge> matched_start \<and> end \<le> matched_end) mp"

definition overlaps :: "(nat \<times> nat) list \<Rightarrow> nat \<Rightarrow> nat \<Rightarrow> bool" where
  "overlaps mp start end =
     list_ex (\<lambda>(matched_start, matched_end). \<not> (end \<le> matched_start \<or> start \<ge> matched_end))
             mp"

definition is_separator :: "ustr \<Rightarrow> bool" where
  "is_separator gap_char \<longleftrightarrow>
     gap_char \<noteq> [] \<and> (list_all py_isspace gap_char \<or> is_substr gap_char punct_marks)"

fun is_adjacent_to_longer :: "ustr \<Rightarrow> ustr \<Rightarrow> nat \<Rightarrow> nat \<Rightarrow> (nat \<times> nat) list \<Rightarrow> bool" where
  "is_adjacent_to_longer all_text keyword start end [] = False"
| "is_adjacent_to_longer all_text keyword start end ((matched_start, matched_end) # mp) =
     (if is_substr keyword (slice all_text matched_start matched_end) then
        (if max matched_end start - min matched_end start \<le> 1 then
           (if min matched_end start < length all_text \<and>
               is_separator (slice all_text (min matched_end start) (max matched_end start))
            then is_adjacent_to_longer all_text keyword start end mp
            else True)
         else if max matched_start end - min matched_start end \<le> 1 then
           (if min matched_start end < length all_text \<and>
               is_separator (slice all_text (min matched_start end) (max matched_start end))
            then is_adjacent_to_longer all_text keyword start end mp
            else True)
         else is_adjacent_to_longer all_text keyword start end mp)
      else is_adjacent_to_longer all_text keyword start end mp)"

text \<open>The loop over the matches of one keyword (lines 238-309): the first valid one.\<close>

fun valid_match ::
  "ustr \<Rightarrow> ustr \<Rightarrow> (nat \<times> nat) list \<Rightarrow> (nat \<times> nat \<times> ustr list) list \<Rightarrow> (nat \<times> nat) option" where
  "valid_match all_text keyword mp [] = None"
| "valid_match all_text keyword mp ((start, end, ms) # rest) =
     (if \<not> is_in_matched_range mp start end \<and>
         is_before_valid all_text start \<and> is_after_valid all_text end \<and>
         \<not> overlaps mp start end \<and>
         \<not> is_adjacent_to_longer all_text keyword start end mp
      then Some (start, end)
      else valid_match all_text keyword mp rest)"

text \<open>
  The loop over the keywords (lines 229-318). It ends at the first keyword that has a
  valid match, so \<open>matched_positions\<close> is still empty whenever it is looked at.
\<close>

fun task_loop :: "pylib \<Rightarrow> ustr \<Rightarrow> (nat \<times> nat) list \<Rightarrow> ustr list \<Rightarrow> ustr option" where
  "task_loop L all_text mp [] = None"
| "task_loop L all_text mp (keyword # rest) =
     (case valid_match all_text keyword mp (finditer L (re_keyword keyword) all_text) of
        None \<Rightarrow> task_loop L all_text mp rest
      | Some (start, end) \<Rightarrow> Some keyword)"

definition task_type :: "pylib \<Rightarrow> ustr \<Rightarrow> ustr option" where
  "task_type L all_text = task_loop L all_text [] task_keywords"

definition task_rule :: "pylib \<Rightarrow> ustr \<Rightarrow> model_info \<Rightarrow> model_info" where
  "task_rule L link_html mi =
     (case task_type L (flatten L link_html) of
        None \<Rightarrow> mi
      | Some keyword \<Rightarrow> mi\<lparr>mi_task_types := Some keyword\<rparr>)"

subsection \<open>The function\<close>

text \<open>
  The body of the \<open>try\<close>: the rules in the order of the source. The result is the
  dictionary as it stands at the end, or at the exception, and the exception if one was
  raised.
\<close>

definition extract_body :: "pylib \<Rightarrow> ustr \<Rightarrow> model_info \<times> error option" where
  "extract_body L link_html =
     (let mi = time_rule L link_html (desc_rule L link_html (name_rule L link_html
                 (c4_rule L link_html (href_rule L link_html empty_info))))
      in case downloads_rule L link_html mi of
           Inl e \<Rightarrow> (mi, Some e)
         | Inr mi1 \<Rightarrow>
             (case stars_rule L link_html mi1 of
                Inl e \<Rightarrow> (mi1, Some e)
              | Inr mi2 \<Rightarrow> (task_rule L link_html mi2, None)))"

text \<open>
  \<open>except Exception\<close> logs the exception, and the dictionary is returned in both cases.
\<close>

definition extract_model_info_from_link :: "pylib \<Rightarrow> ustr \<Rightarrow> error + model_info" where
  "extract_model_info_from_link L link_html =
     (case extract_body L link_html of (mi, exc) \<Rightarrow> Inr mi)"

section \<open>Assembly and deduplication of the ModelScope records\<close>

text \<open>
  What both callers do with the dictionary of a card (lines 371-378 and 594-602): a
  dictionary with neither \<open>id\<close> nor \<open>name\<close> is skipped, and a missing one of the two is
  taken from the other.
\<close>

definition assemble :: "model_info \<Rightarrow> model_info option" where
  "assemble mi =
     (if \<not> truthy (mi_id mi) \<and> \<not> truthy (mi_name mi) then None
      else
        let mi1 = (if \<not> truthy (mi_id mi) then mi\<lparr>mi_id := Some (get_str (mi_name mi))\<rparr>
                   else mi);
            mi2 = (if \<not> truthy (mi_name mi1) then mi1\<lparr>mi_name := Some (get_str (mi_id mi1))\<rparr>
                   else mi1)
        in Some mi2)"

text \<open>
  The cards of one page in \<open>fetch_modelscope_models\<close> (lines 585-608): a card whose
  processing raises is skipped.
\<close>

definition page_models :: "pylib \<Rightarrow> ustr list \<Rightarrow> model_info list" where
  "page_models L model_blocks =
     List.map_filter
       (\<lambda>block_html. case extract_model_info_from_link L block_html of
                        Inl e \<Rightarrow> None
                      | Inr mi \<Rightarrow> assemble mi)
       model_blocks"

subsection \<open>Deduplication in \<open>fetch_modelscope_models\<close> (lines 617-627)\<close>

text \<open>\<open>model_key = model_info.get("id", "").lower().strip()\<close>\<close>

definition model_key :: "pylib \<Rightarrow> model_info \<Rightarrow> ustr" where
  "model_key L m = py_strip (py_lower L (get_str (mi_id m)))"

text \<open>
  The loop over \<open>all_models\<close>, with the set \<open>seen_models\<close> passed along. A record with
  a new non-empty key is kept and its key recorded; a record with an empty key is kept and
  the set left alone; any other record is dropped.
\<close>

fun dedupe_from :: "pylib \<Rightarrow> ustr set \<Rightarrow> model_info list \<Rightarrow> model_info list" where
  "dedupe_from L seen [] = []"
| "dedupe_from L seen (m # ms) =
     (if model_key L m \<noteq> [] \<and> model_key L m \<notin> seen
        then m # dedupe_from L (insert (model_key L m) seen) ms
      else if model_key L m = [] then m # dedupe_from L seen ms
      else dedupe_from L seen ms)"

definition dedupe :: "pylib \<Rightarrow> model_info list \<Rightarrow> model_info list" where
  "dedupe L ms = dedupe_from L {} ms"

text \<open>The keys recorded in \<open>seen_models\<close> once the loop has gone through \<open>xs\<close>.\<close>

definition seen_after :: "pylib \<Rightarrow> ustr set \<Rightarrow> model_info list \<Rightarrow> ustr set" where
  "seen_after L S xs = S \<union> {k. k \<noteq> [] \<and> k \<in> model_key L ` set xs}"

text \<open>
  The models that \<open>fetch_modelscope_models\<close> returns for the cards that the browser
  delivered, page by page.
\<close>

definition unique_models :: "pylib \<Rightarrow> ustr list list \<Rightarrow> model_info list" where
  "unique_models L pages = dedupe L (concat (map (page_models L) pages))"

subsection \<open>\<open>parse_html_file\<close>\<close>

text \<open>\<open><a[^>]*data-autolog[^>]*c3=modelCard[^>]*>.*?</a>\<close> with \<open>re.DOTALL | re.IGNORECASE\<close>\<close>

definition re_card :: "ritem list" where
  "re_card =
     litI ''<a'' @ [Rep (NoneOf [62]) 0 True] @ litI ''data-autolog'' @
     [Rep (NoneOf [62]) 0 True] @ litI ''c3=modelCard'' @ [Rep (NoneOf [62]) 0 True] @
     litI ''>'' @ [Rep AnyChar 0 False] @ litI ''</a>''"

definition block_separator :: ustr where
  "block_separator = asc ''<!-- ===== MODEL BLOCK SEPARATOR ===== -->''"

definition model_blocks_of :: "pylib \<Rightarrow> ustr \<Rightarrow> ustr list" where
  "model_blocks_of L html_content =
     (if is_substr block_separator html_content
      then py_split_sep block_separator html_content
      else findall_whole L re_card html_content)"

text \<open>
  The loop over the blocks (lines 361-390), with the set \<open>seen_models\<close> passed along. A
  block whose processing raises is skipped.
\<close>

fun html_loop :: "pylib \<Rightarrow> ustr set \<Rightarrow> ustr list \<Rightarrow> model_info list" where
  "html_loop L seen [] = []"
| "html_loop L seen (block_html # rest) =
     (if py_strip block_html = [] then html_loop L seen rest
      else
        case extract_model_info_from_link L (py_strip block_html) of
          Inl e \<Rightarrow> html_loop L seen rest
        | Inr mi \<Rightarrow>
            (case assemble mi of
               None \<Rightarrow> html_loop L seen rest
             | Some mi2 \<Rightarrow>
                 if model_key L mi2 = [] \<or> model_key L mi2 \<in> seen then html_loop L seen rest
                 else mi2 # html_loop L (insert (model_key L mi2) seen) rest))"

text \<open>
  The function takes what reading the file gave: its content, or the exception raised.
  Both handlers return the empty list.
\<close>

definition parse_html_file :: "pylib \<Rightarrow> error + ustr \<Rightarrow> error + model_info list" where
  "parse_html_file L file =
     (case file of
        Inl e \<Rightarrow> Inr []
      | Inr html_content \<Rightarrow> Inr (html_loop L {} (model_blocks_of L html_content)))"

section \<open>OpenRouter: \<open>parse_rss_xml\<close>\<close>

text \<open>\<open><name>(.*?)</name>\<close> with \<open>re.DOTALL\<close>, for the elements of an item.\<close>

definition re_elem :: "string \<Rightarrow> ritem list" where
  "re_elem name =
     lit ''<'' @ lit name @ lit ''>'' @ [Mark, Rep AnyChar 0 False, Mark] @
     lit ''</'' @ lit name @ lit ''>''"

text \<open>\<open><guid[^>]*>(.*?)</guid>\<close> with \<open>re.DOTALL\<close>\<close>

definition re_guid :: "ritem list" where
  "re_guid = lit ''<guid'' @ [Rep (NoneOf [62]) 0 True] @ lit ''>'' @
             [Mark, Rep AnyChar 0 False, Mark] @ lit ''</guid>''"

text \<open>\<open><!\[CDATA\[(.*?)\]\]>\<close> with \<open>re.DOTALL\<close>\<close>

definition re_cdata :: "ritem list" where
  "re_cdata = lit ''<![CDATA['' @ [Mark, Rep AnyChar 0 False, Mark] @ lit '']]>''"

text \<open>\<open>^([^:]+):\s*(.+?)\s*\(([^)]+)\)$\<close> and \<open>^(.+?)\s*\(([^)]+)\)$\<close>, without flags\<close>

definition re_title3 :: "ritem list" where
  "re_title3 =
     [Mark, Rep (NoneOf [58]) 1 True, Mark] @ lit '':'' @
     [Rep WSpace 0 True, Mark, Rep (NoneOf [10]) 1 False, Mark, Rep WSpace 0 True] @
     lit ''('' @ [Mark, Rep (NoneOf [41]) 1 True, Mark] @ lit '')'' @ [Eos]"

definition re_title2 :: "ritem list" where
  "re_title2 =
     [Mark, Rep (NoneOf [10]) 1 False, Mark, Rep WSpace 0 True] @
     lit ''('' @ [Mark, Rep (NoneOf [41]) 1 True, Mark] @ lit '')'' @ [Eos]"

text \<open>\<open>openrouter\.ai/([^/]+/[^/]+)\<close> and \<open>([^/]+/[^/-]+)\<close>\<close>

definition re_link_id :: "ritem list" where
  "re_link_id = lit ''openrouter.ai/'' @ [Mark, Rep (NoneOf [47]) 1 True] @ lit ''/'' @
                [Rep (NoneOf [47]) 1 True, Mark]"

definition re_guid_id :: "ritem list" where
  "re_guid_id = [Mark, Rep (NoneOf [47]) 1 True] @ lit ''/'' @
                [Rep (NoneOf [47, 45]) 1 True, Mark]"

text \<open>\<open>re.match\<close>: a match at the start of the string, as its marks.\<close>

definition rmatch_start :: "pylib \<Rightarrow> ritem list \<Rightarrow> ustr \<Rightarrow> ustr list option" where
  "rmatch_start L p s = map_option fst (rmatch L p s [])"

definition extract_cdata_content :: "pylib \<Rightarrow> ustr \<Rightarrow> ustr" where
  "extract_cdata_content L text =
     (if text = [] then []
      else case rsearch L re_cdata text of
             Some ms \<Rightarrow> py_strip (grp ms 0)
           | None \<Rightarrow> py_strip text)"

text \<open>The text of an element of the item, stripped; empty when the element is missing.\<close>

definition elem_text :: "pylib \<Rightarrow> ritem list \<Rightarrow> ustr \<Rightarrow> ustr" where
  "elem_text L p item_content =
     (case rsearch L p item_content of None \<Rightarrow> [] | Some ms \<Rightarrow> py_strip (grp ms 0))"

text \<open>The local variables of the loop body when it reaches line 136.\<close>

record rss_fields =
  rf_provider :: ustr
  rf_model_name :: ustr
  rf_model_id :: ustr
  rf_description :: ustr
  rf_link :: ustr
  rf_guid :: ustr
  rf_pub_date :: ustr

definition rss_item :: "pylib \<Rightarrow> ustr \<Rightarrow> rss_fields" where
  "rss_item L item_content =
     (let title = (case rsearch L (re_elem ''title'') item_content of
                     None \<Rightarrow> []
                   | Some ms \<Rightarrow> extract_cdata_content L (grp ms 0));
          m3 = (if title = [] then None else rmatch_start L re_title3 title);
          m2 = (if title = [] \<or> m3 \<noteq> None then None else rmatch_start L re_title2 title);
          provider = (case m3 of Some ms \<Rightarrow> py_strip (grp ms 0) | None \<Rightarrow> []);
          model_name = (case m3 of
                          Some ms \<Rightarrow> py_strip (grp ms 1)
                        | None \<Rightarrow> (case m2 of
                                     Some ms \<Rightarrow> py_strip (grp ms 0)
                                   | None \<Rightarrow> py_strip title));
          id1 = (case m3 of
                   Some ms \<Rightarrow> py_strip (grp ms 2)
                 | None \<Rightarrow> (case m2 of Some ms \<Rightarrow> py_strip (grp ms 1) | None \<Rightarrow> []));
          description = (case rsearch L (re_elem ''description'') item_content of
                           None \<Rightarrow> []
                         | Some ms \<Rightarrow>
                             py_strip (rsub L re_tag [] (extract_cdata_content L (grp ms 0))));
          link = elem_text L (re_elem ''link'') item_content;
          id2 = (if id1 = [] \<and> link \<noteq> []
                 then (case rsearch L re_link_id link of Some ms \<Rightarrow> grp ms 0 | None \<Rightarrow> id1)
                 else id1);
          guid = elem_text L re_guid item_content;
          pub_date = elem_text L (re_elem ''pubDate'') item_content;
          id3 = (if id2 = [] \<and> guid \<noteq> []
                 then (case rsearch L re_guid_id guid of Some ms \<Rightarrow> grp ms 0 | None \<Rightarrow> id2)
                 else id2)
      in \<lparr> rf_provider = provider, rf_model_name = model_name, rf_model_id = id3,
           rf_description = description, rf_link = link, rf_guid = guid,
           rf_pub_date = pub_date \<rparr>)"

text \<open>The dictionary of a model: \<open>id\<close> and \<open>name\<close> always, the others when not empty.\<close>

record rss_model =
  rm_id :: ustr
  rm_name :: ustr
  rm_provider :: "ustr option"
  rm_description :: "ustr option"
  rm_link :: "ustr option"
  rm_pub_date :: "ustr option"

definition opt_field :: "ustr \<Rightarrow> ustr option" where
  "opt_field v = (if v \<noteq> [] then Some v else None)"

definition rss_model_info :: "rss_fields \<Rightarrow> rss_model" where
  "rss_model_info f =
     \<lparr> rm_id = rf_model_id f,
       rm_name = (if rf_model_name f \<noteq> [] then rf_model_name f else rf_model_id f),
       rm_provider = opt_field (rf_provider f),
       rm_description = opt_field (rf_description f),
       rm_link = opt_field (rf_link f),
       rm_pub_date = opt_field (rf_pub_date f) \<rparr>"

text \<open>
  The end of the loop body (lines 136-162) for the fields of an item: the item is skipped
  when it has no identifier or when the key was seen.
\<close>

fun rss_loop :: "pylib \<Rightarrow> ustr set \<Rightarrow> rss_fields list \<Rightarrow> rss_model list" where
  "rss_loop L seen [] = []"
| "rss_loop L seen (f # rest) =
     (if rf_model_id f = [] then rss_loop L seen rest
      else if py_lower L (rf_model_id f) \<in> seen then rss_loop L seen rest
      else rss_model_info f # rss_loop L (insert (py_lower L (rf_model_id f)) seen) rest)"

definition parse_rss_xml :: "pylib \<Rightarrow> ustr \<Rightarrow> error + rss_model list" where
  "parse_rss_xml L xml_content =
     Inr (rss_loop L {} (map (rss_item L) (findall_group L (re_elem ''item'') xml_content)))"

section \<open>\<open>validate_and_clean_models\<close>\<close>

text \<open>
  A value of a dictionary is a string, a \<open>bytes\<close> or a \<open>bytearray\<close> object (the built-in
  types with the methods \<open>strip\<close> and \<open>lower\<close>), or a value of another built-in type
  (\<open>None\<close>, a number, a list, a dictionary), which has no method \<open>strip\<close>. A value that is
  no string carries its \<open>str\<close> form. An entry of the list is a dictionary, of which the
  keys \<open>model\<close>, \<open>id\<close> and \<open>context\<close> are read, or something else.
\<close>

datatype pyval =
    Str ustr
  | Bytes "nat list" ustr
  | ByteArray "nat list" ustr
  | Other ustr

record raw_model =
  rw_model :: "pyval option"
  rw_id :: "pyval option"
  rw_context :: "pyval option"

datatype entry = NotADict | ADict raw_model

text \<open>
  What \<open>strip\<close> and \<open>lower\<close> return: an object of the type they were called on. Two such
  objects in a set are equal when they have the same type and the same content.
\<close>

datatype pytext = TStr ustr | TBytes "nat list" | TByteArray "nat list"

record clean_model =
  cm_model :: pytext
  cm_id :: pytext
  cm_context :: ustr

text \<open>
  \<open>model.get(k, "").strip()\<close>: a string loses the Unicode whitespace at its ends, a
  \<open>bytes\<close> or \<open>bytearray\<close> object the ASCII whitespace (space, tab, newline, return,
  vertical tab, form feed); any other value raises \<open>AttributeError\<close>.
\<close>

definition bytes_isspace :: "nat \<Rightarrow> bool" where
  "bytes_isspace b \<longleftrightarrow> b = 32 \<or> (9 \<le> b \<and> b \<le> 13)"

definition bytes_strip :: "nat list \<Rightarrow> nat list" where
  "bytes_strip b = rev (dropWhile bytes_isspace (rev (dropWhile bytes_isspace b)))"

definition strip_field :: "pyval option \<Rightarrow> error + pytext" where
  "strip_field v =
     (case v of
        None \<Rightarrow> Inr (TStr [])
      | Some (Str s) \<Rightarrow> Inr (TStr (py_strip s))
      | Some (Bytes b r) \<Rightarrow> Inr (TBytes (bytes_strip b))
      | Some (ByteArray b r) \<Rightarrow> Inr (TByteArray (bytes_strip b))
      | Some (Other r) \<Rightarrow> Inl AttributeError)"

text \<open>\<open>not t\<close>, \<open>t.lower()\<close> and whether \<open>t\<close> can be hashed.\<close>

fun text_empty :: "pytext \<Rightarrow> bool" where
  "text_empty (TStr s) \<longleftrightarrow> s = []"
| "text_empty (TBytes b) \<longleftrightarrow> b = []"
| "text_empty (TByteArray b) \<longleftrightarrow> b = []"

fun text_lower :: "pylib \<Rightarrow> pytext \<Rightarrow> pytext" where
  "text_lower L (TStr s) = TStr (py_lower L s)"
| "text_lower L (TBytes b) = TBytes (map ascii_lower b)"
| "text_lower L (TByteArray b) = TByteArray (map ascii_lower b)"

fun hashable :: "pytext \<Rightarrow> bool" where
  "hashable (TByteArray b) \<longleftrightarrow> False"
| "hashable t \<longleftrightarrow> True"

text \<open>\<open>str(model.get("context", ""))\<close>\<close>

definition str_of :: "pyval option \<Rightarrow> ustr" where
  "str_of v =
     (case v of
        None \<Rightarrow> []
      | Some (Str s) \<Rightarrow> s
      | Some (Bytes b r) \<Rightarrow> r
      | Some (ByteArray b r) \<Rightarrow> r
      | Some (Other r) \<Rightarrow> r)"

text \<open>\<open>(\d+)\<close>\<close>

definition re_digits :: "ritem list" where
  "re_digits = [Mark, Rep Digit 1 True, Mark]"

definition clean_context :: "pylib \<Rightarrow> pyval option \<Rightarrow> ustr" where
  "clean_context L v =
     (let context = py_strip (str_of v) in
      if context \<noteq> []
      then (case rsearch L re_digits context of Some ms \<Rightarrow> grp ms 0 | None \<Rightarrow> [])
      else context)"

text \<open>
  The loop, with the set \<open>seen_models\<close> passed along. Nothing catches an exception: the
  \<open>AttributeError\<close> of a \<open>model\<close> or \<open>id\<close> without \<open>strip\<close>, and the \<open>TypeError\<close> of
  a non-empty \<open>bytearray\<close> key, which cannot be looked up in a set, are raised by the
  call. An empty key is not looked up.
\<close>

fun validate_loop :: "pylib \<Rightarrow> pytext set \<Rightarrow> entry list \<Rightarrow> error + clean_model list" where
  "validate_loop L seen [] = Inr []"
| "validate_loop L seen (NotADict # rest) = validate_loop L seen rest"
| "validate_loop L seen (ADict d # rest) =
     (case strip_field (rw_model d) of
        Inl e \<Rightarrow> Inl e
      | Inr model_name \<Rightarrow>
          (case strip_field (rw_id d) of
             Inl e \<Rightarrow> Inl e
           | Inr model_id \<Rightarrow>
               if text_empty model_name \<and> text_empty model_id then validate_loop L seen rest
               else
                 let model_key = text_lower L (if \<not> text_empty model_id then model_id
                                               else model_name)
                 in if text_empty model_key then validate_loop L seen rest
                    else if \<not> hashable model_key then Inl TypeError
                    else if model_key \<in> seen then validate_loop L seen rest
                    else
                      (case validate_loop L (insert model_key seen) rest of
                         Inl e \<Rightarrow> Inl e
                       | Inr out \<Rightarrow>
                           Inr (\<lparr> cm_model = (if \<not> text_empty model_name then model_name
                                                else model_id),
                                   cm_id = model_id,
                                   cm_context = clean_context L (rw_context d) \<rparr> # out))))"

definition validate_and_clean_models :: "pylib \<Rightarrow> entry list \<Rightarrow> error + clean_model list" where
  "validate_and_clean_models L models = validate_loop L {} models"

section \<open>Notions of the specification\<close>

text \<open>
  The key of an entry of the output of \<open>validate_and_clean_models\<close>, and the key of a
  dictionary of its input: lowercased id-or-model.
\<close>

definition out_key :: "pylib \<Rightarrow> clean_model \<Rightarrow> pytext" where
  "out_key L e = text_lower L (if \<not> text_empty (cm_id e) then cm_id e else cm_model e)"

definition dict_key :: "pylib \<Rightarrow> raw_model \<Rightarrow> pytext option" where
  "dict_key L d =
     (case strip_field (rw_model d) of
        Inl e \<Rightarrow> None
      | Inr mn \<Rightarrow>
          (case strip_field (rw_id d) of
             Inl e \<Rightarrow> None
           | Inr mi \<Rightarrow> Some (text_lower L (if \<not> text_empty mi then mi else mn))))"

text \<open>
  An entry of the output comes from the first dictionary of the input that has its key:
  the dictionary's \<open>id\<close>, stripped, is the entry's; the entry's \<open>model\<close> is the dictionary's,
  stripped, or the \<open>id\<close> when that is empty; the entry's \<open>context\<close> is the one computed
  from the dictionary's.
\<close>

definition origin :: "pylib \<Rightarrow> entry list \<Rightarrow> clean_model \<Rightarrow> bool" where
  "origin L xs e \<longleftrightarrow>
     (\<exists>pre d post mn. xs = pre @ ADict d # post
        \<and> (\<forall>d'. ADict d' \<in> set pre \<longrightarrow> dict_key L d' \<noteq> Some (out_key L e))
        \<and> strip_field (rw_model d) = Inr mn \<and> strip_field (rw_id d) = Inr (cm_id e)
        \<and> cm_model e = (if \<not> text_empty mn then mn else cm_id e)
        \<and> cm_context e = clean_context L (rw_context d))"

text \<open>
  The values that have a method \<open>strip\<close> whose result can be put in a set: an absent key
  (the default \<open>""\<close>), a string, a \<open>bytes\<close> object.
\<close>

fun has_strip_and_hash :: "pyval option \<Rightarrow> bool" where
  "has_strip_and_hash None \<longleftrightarrow> True"
| "has_strip_and_hash (Some (Str s)) \<longleftrightarrow> True"
| "has_strip_and_hash (Some (Bytes b r)) \<longleftrightarrow> True"
| "has_strip_and_hash (Some (ByteArray b r)) \<longleftrightarrow> False"
| "has_strip_and_hash (Some (Other r)) \<longleftrightarrow> False"

text \<open>The first maximal run of decimal digits of a string (empty when it has no digit).\<close>

definition first_digit_run :: "pylib \<Rightarrow> ustr \<Rightarrow> ustr" where
  "first_digit_run L s = takeWhile (py_isdecimal L) (dropWhile (\<lambda>c. \<not> py_isdecimal L c) s)"

text \<open>
  A keyword is accepted in a text when one of its occurrences has a valid boundary on both
  sides.
\<close>

definition accepted :: "pylib \<Rightarrow> ustr \<Rightarrow> ustr \<Rightarrow> bool" where
  "accepted L all_text keyword \<longleftrightarrow>
     list_ex (\<lambda>(start, end, ms). is_before_valid all_text start \<and> is_after_valid all_text end)
             (finditer L (re_keyword keyword) all_text)"

text \<open>
  The characters that may stand next to an accepted occurrence: the whitespace characters,
  the seven punctuation marks (U+FF0C, U+3002, U+3001, U+FF1B, U+FF1A, U+FF01, U+FF1F) and
  the ideographs from U+4E00 to U+9FFF.
\<close>

definition boundary_char :: "uchar \<Rightarrow> bool" where
  "boundary_char c \<longleftrightarrow>
     c \<in> {9, 10, 11, 12, 13, 28, 29, 30, 31, 32, 133, 160, 5760, 8192, 8193, 8194, 8195, 8196,
          8197, 8198, 8199, 8200, 8201, 8202, 8232, 8233, 8239, 8287, 12288}
     \<or> c \<in> {65292, 12290, 12289, 65307, 65306, 65281, 65311}
     \<or> (19968 \<le> c \<and> c \<le> 40959)"

text \<open>The Latin letters.\<close>

definition is_latin :: "uchar \<Rightarrow> bool" where
  "is_latin c \<longleftrightarrow> (65 \<le> c \<and> c \<le> 90) \<or> (97 \<le> c \<and> c \<le> 122)"

text \<open>
  The magnitude of a count as the specification words it: a numeral, that is digits with
  an optional point and digits, followed or not by one of the letters \<open>K\<close>, \<open>M\<close>, \<open>B\<close>
  in either case; the value of the numeral times the factor of the letter, cut to an
  integer; no value for any other text.
\<close>

definition suffix_factor :: "uchar \<Rightarrow> int option" where
  "suffix_factor c =
     (if c = 75 \<or> c = 107 then Some 1000
      else if c = 77 \<or> c = 109 then Some 1000000
      else if c = 66 \<or> c = 98 then Some 1000000000
      else None)"

definition spec_numeral :: "ustr \<Rightarrow> (nat \<times> nat) option" where
  "spec_numeral s =
     (let ip = takeWhile is_adigit s; r = dropWhile is_adigit s
      in if ip = [] then None
         else (case r of
                 [] \<Rightarrow> Some (digits_val ip, 0)
               | c # fp \<Rightarrow>
                   if c = 46 \<and> fp \<noteq> [] \<and> list_all is_adigit fp
                   then Some (digits_val (ip @ fp), length fp)
                   else None))"

definition spec_magnitude :: "ustr \<Rightarrow> int option" where
  "spec_magnitude s =
     (let f = (if s = [] then None else suffix_factor (last s))
      in case spec_numeral (if f = None then s else butlast s) of
           None \<Rightarrow> None
         | Some (m, k) \<Rightarrow> Some ((int m * (case f of None \<Rightarrow> 1 | Some x \<Rightarrow> x)) div 10 ^ k))"

text \<open>
  The text of a numeral with integer digits \<open>ip\<close> and fraction digits \<open>fp\<close>, and the float
  nearest to its value.
\<close>

definition numeral_text :: "ustr \<Rightarrow> ustr \<Rightarrow> ustr" where
  "numeral_text ip fp = (if fp = [] then ip else ip @ [46] @ fp)"

definition numeral_float :: "ustr \<Rightarrow> ustr \<Rightarrow> dbl" where
  "numeral_float ip fp = round_dec False (digits_val (ip @ fp)) (- int (length fp))"

text \<open>
  What the handler of a conversion makes of the outcome of \<open>int\<close>, and the text that the
  conversion hands to \<open>float\<close>: the upper-case text without the letter of its branch.
\<close>

definition int_result :: "error + int \<Rightarrow> error + int option" where
  "int_result r =
     (case r of
        Inr n \<Rightarrow> Inr (Some n)
      | Inl e \<Rightarrow> if e = ValueError \<or> e = AttributeError then Inr None else Inl e)"

definition float_arg :: "pylib \<Rightarrow> ustr \<Rightarrow> ustr" where
  "float_arg L text =
     (let s = py_upper L text in
      if is_substr (asc ''K'') s then py_replace (asc ''k'') [] (py_replace (asc ''K'') [] s)
      else if is_substr (asc ''M'') s
           then py_replace (asc ''m'') [] (py_replace (asc ''M'') [] s)
      else if is_substr (asc ''B'') s
           then py_replace (asc ''b'') [] (py_replace (asc ''B'') [] s)
      else s)"

text \<open>A text of digits and points.\<close>

definition plain :: "ustr \<Rightarrow> bool" where
  "plain s \<longleftrightarrow> list_all (\<lambda>c. is_adigit c \<or> c = 46) s"

section \<open>Inputs of the examples\<close>

text \<open>
  Task keywords of the source, in pinyin: \<open>wenzi shengcheng tupian\<close> (the first of the
  list), \<open>wenben shengcheng tupian\<close> (the second), \<open>wenben shengcheng\<close>,
  \<open>shijue duomotai lijie\<close> and \<open>duomotai lijie\<close>.
\<close>

definition kw_wenzi_tupian :: ustr where
  "kw_wenzi_tupian = [25991, 23383, 29983, 25104, 22270, 29255]"

definition kw_wenben_tupian :: ustr where
  "kw_wenben_tupian = [25991, 26412, 29983, 25104, 22270, 29255]"

definition kw_wenben :: ustr where
  "kw_wenben = [25991, 26412, 29983, 25104]"

definition kw_shijue_duomotai :: ustr where
  "kw_shijue_duomotai = [35270, 35273, 22810, 27169, 24577, 29702, 35299]"

definition kw_duomotai :: ustr where
  "kw_duomotai = [22810, 27169, 24577, 29702, 35299]"

definition card_blank_id :: ustr where
  "card_blank_id = asc ''<a data-autolog=\"c3=modelCard\" href=\"/models/ /models/\"></a>''"


section \<open>Properties of the deduplication\<close>

lemma dedupe_from_subset: "set (dedupe_from L S xs) \<subseteq> set xs"
  by (induction xs arbitrary: S) auto

lemma dedupe_from_fresh:
  "m \<in> set (dedupe_from L S xs) \<Longrightarrow> model_key L m \<noteq> [] \<Longrightarrow> model_key L m \<notin> S"
  by (induction xs arbitrary: S) (auto split: if_splits)

lemma dedupe_from_again:
  "S \<subseteq> T \<Longrightarrow> dedupe_from L S (dedupe_from L T xs) = dedupe_from L T xs"
proof (induction xs arbitrary: S T)
  case Nil
  then show ?case by simp
next
  case (Cons x xs)
  let ?k = "model_key L x"
  have step: "dedupe_from L (insert ?k S) (dedupe_from L (insert ?k T) xs)
                = dedupe_from L (insert ?k T) xs"
    using Cons.IH [of "insert ?k S" "insert ?k T"] Cons.prems by blast
  show ?case
  proof (cases "?k \<noteq> [] \<and> ?k \<notin> T")
    case True
    then have "?k \<notin> S" using Cons.prems by blast
    with True step show ?thesis by simp
  next
    case False
    with Cons.IH [OF Cons.prems] show ?thesis by auto
  qed
qed

lemma seen_after_Cons:
  "seen_after L S (x # xs) =
     (if model_key L x \<noteq> [] then seen_after L (insert (model_key L x) S) xs
      else seen_after L S xs)"
  by (auto simp: seen_after_def)

lemma dedupe_from_append:
  "dedupe_from L S (xs @ ys) = dedupe_from L S xs @ dedupe_from L (seen_after L S xs) ys"
proof (induction xs arbitrary: S)
  case Nil
  then show ?case by (simp add: seen_after_def)
next
  case (Cons x xs)
  then show ?case by (simp add: seen_after_Cons insert_absorb)
qed

lemma dedupe_from_seen_key:
  "k \<noteq> [] \<Longrightarrow> k \<in> S \<Longrightarrow> filter (\<lambda>m. model_key L m = k) (dedupe_from L S xs) = []"
  by (induction xs arbitrary: S) auto

lemma dedupe_from_absent_key:
  "\<forall>m \<in> set xs. model_key L m \<noteq> k
     \<Longrightarrow> filter (\<lambda>m. model_key L m = k) (dedupe_from L S xs) = []"
  using dedupe_from_subset [of L S xs] by (auto simp: filter_empty_conv)

lemma dedupe_from_empty_keys:
  "filter (\<lambda>m. model_key L m = []) (dedupe_from L S xs)
     = filter (\<lambda>m. model_key L m = []) xs"
  by (induction xs arbitrary: S) auto

text \<open>
  C9. Deduplicating the output of a deduplication changes nothing: no record of
  \<open>dedupe L xs\<close> is dropped by a second pass.
\<close>

theorem dedupe_idempotent: "dedupe L (dedupe L xs) = dedupe L xs"
  unfolding dedupe_def
  by (simp add: dedupe_from_again)

text \<open>
  C1 (as amended). When \<open>a\<close> is the first record with its key, the key is not empty and a
  later record \<open>b\<close> has the same key, the output holds exactly one record with that key,
  and it is \<open>a\<close> itself, unchanged: nothing of \<open>b\<close> is in it. In particular
  \<open>dedupe [a, b] = [a]\<close>.
\<close>

theorem dedupe_first_wins:
  assumes "model_key L a = model_key L b" and "model_key L a \<noteq> []"
    and "\<forall>m \<in> set pre. model_key L m \<noteq> model_key L a"
  shows "filter (\<lambda>m. model_key L m = model_key L a) (dedupe L (pre @ a # mid @ b # post)) = [a]
         \<and> dedupe L [a, b] = [a]"
proof -
  let ?k = "model_key L a"
  let ?S = "seen_after L {} pre"
  have notin: "?k \<notin> ?S" using assms(3) by (auto simp: seen_after_def)
  have pre: "filter (\<lambda>m. model_key L m = ?k) (dedupe_from L {} pre) = []"
    using assms(3) by (rule dedupe_from_absent_key)
  have rest: "filter (\<lambda>m. model_key L m = ?k) (dedupe_from L (insert ?k ?S) (mid @ b # post)) = []"
    using assms(2) by (intro dedupe_from_seen_key) auto
  have split: "dedupe L (pre @ a # mid @ b # post)
                 = dedupe_from L {} pre @ dedupe_from L ?S (a # mid @ b # post)"
    unfolding dedupe_def by (rule dedupe_from_append)
  have head: "dedupe_from L ?S (a # mid @ b # post)
                = a # dedupe_from L (insert ?k ?S) (mid @ b # post)"
    using assms(2) notin by simp
  have "filter (\<lambda>m. model_key L m = ?k) (dedupe L (pre @ a # mid @ b # post)) = [a]"
    by (simp only: split head filter_append filter.simps pre rest) simp
  moreover have "dedupe L [a, b] = [a]"
    unfolding dedupe_def using assms(1,2) by simp
  ultimately show ?thesis by simp
qed


text \<open>The definitions that evaluate the model on a concrete input.\<close>

lemmas ev = asc_def startswith_def py_find_def is_substr_def slice_def py_replace_def py_split_sep_def
  py_split_def py_strip_def py_lower_def py_upper_def py_isspace_def ascii_lower_def ascii_upper_def ascii_lib_def
  lit_def litI_def ci_match_def py_isdecimal_def grp_def rsearch_def finditer_def findall_group_def findall_whole_def rsub_def
  get_str_def truthy_def empty_info_def model_key_def
  re_href_def re_c4_def re_tag_def re_classed_def re_chinese_def re_icon_strict_def re_icon_loose_def re_keyword_def
  href_rule_def c4_rule_def flatten_def title_match_def chinese_name_def name_rule_def desc_rule_def icon_text_def time_rule_def
  downloads_rule_def stars_rule_def task_rule_def task_type_def extract_body_def extract_model_info_from_link_def
  Let_def assemble_def page_models_def dedupe_def unique_models_def re_card_def block_separator_def model_blocks_of_def parse_html_file_def
  punct_marks_def is_cjk_def is_before_valid_def is_after_valid_def is_in_matched_range_def overlaps_def is_separator_def task_keywords_def name_stoplist_def
  List.map_filter_def

theorem dedupe_first_wins_witness:
  "filter (\<lambda>m. model_key ascii_lib m = asc ''org/m'')
     (dedupe ascii_lib
        ([empty_info\<lparr>mi_id := Some (asc ''x/y'')\<rparr>] @
         empty_info\<lparr>mi_id := Some (asc ''Org/M''), mi_name := Some (asc ''first'')\<rparr> #
         [] @ empty_info\<lparr>mi_id := Some (asc '' org/m''), mi_name := Some (asc ''second'')\<rparr> # []))
     = [empty_info\<lparr>mi_id := Some (asc ''Org/M''), mi_name := Some (asc ''first'')\<rparr>]
   \<and> dedupe ascii_lib
        [empty_info\<lparr>mi_id := Some (asc ''Org/M''), mi_name := Some (asc ''first'')\<rparr>,
         empty_info\<lparr>mi_id := Some (asc '' org/m''), mi_name := Some (asc ''second'')\<rparr>]
     = [empty_info\<lparr>mi_id := Some (asc ''Org/M''), mi_name := Some (asc ''first'')\<rparr>]"
proof -
  let ?a = "empty_info\<lparr>mi_id := Some (asc ''Org/M''), mi_name := Some (asc ''first'')\<rparr>"
  let ?b = "empty_info\<lparr>mi_id := Some (asc '' org/m''), mi_name := Some (asc ''second'')\<rparr>"
  have ka: "model_key ascii_lib ?a = asc ''org/m''" by (simp add: ev)
  have kb: "model_key ascii_lib ?b = asc ''org/m''" by (simp add: ev)
  have h1: "model_key ascii_lib ?a = model_key ascii_lib ?b" by (simp only: ka kb)
  have h2: "model_key ascii_lib ?a \<noteq> []" by (simp only: ka) (simp add: asc_def)
  have h3: "\<forall>m \<in> set [empty_info\<lparr>mi_id := Some (asc ''x/y'')\<rparr>].
              model_key ascii_lib m \<noteq> model_key ascii_lib ?a"
    by (simp add: ev)
  show ?thesis
    using dedupe_first_wins [OF h1 h2 h3, of "[]" "[]"] by (simp only: ka)
qed

text \<open>
  The claim fails for the empty key: two assembled records whose \<open>id\<close> is a blank have
  the same (empty) key, and both are in the output.
\<close>

theorem dedupe_first_wins_counterexample:
  "model_key ascii_lib (empty_info\<lparr>mi_id := Some (asc '' ''), mi_name := Some (asc ''a'')\<rparr>)
     = model_key ascii_lib (empty_info\<lparr>mi_id := Some (asc '' ''), mi_name := Some (asc ''b'')\<rparr>)
   \<and> dedupe ascii_lib [empty_info\<lparr>mi_id := Some (asc '' ''), mi_name := Some (asc ''a'')\<rparr>,
                         empty_info\<lparr>mi_id := Some (asc '' ''), mi_name := Some (asc ''b'')\<rparr>]
     = [empty_info\<lparr>mi_id := Some (asc '' ''), mi_name := Some (asc ''a'')\<rparr>,
        empty_info\<lparr>mi_id := Some (asc '' ''), mi_name := Some (asc ''b'')\<rparr>]
   \<and> empty_info\<lparr>mi_id := Some (asc '' ''), mi_name := Some (asc ''a'')\<rparr>
     \<noteq> empty_info\<lparr>mi_id := Some (asc '' ''), mi_name := Some (asc ''b'')\<rparr>"
  by (simp add: ev)

lemma html_loop_keys:
  "m \<in> set (html_loop L S bs) \<Longrightarrow> model_key L m \<noteq> [] \<and> model_key L m \<notin> S"
  by (induction bs arbitrary: S) (auto split: if_splits sum.splits option.splits)

lemma text_lower_empty: "text_empty t \<Longrightarrow> text_empty (text_lower L t)"
  by (cases t) (simp_all add: py_lower_def)

lemma validate_loop_Cons_ADict:
  assumes "validate_loop L S (ADict d # xs) = Inr out"
  obtains mn mi where "strip_field (rw_model d) = Inr mn" "strip_field (rw_id d) = Inr mi"
    and "(text_empty mn \<and> text_empty mi
           \<or> text_empty (text_lower L (if \<not> text_empty mi then mi else mn))
           \<or> text_lower L (if \<not> text_empty mi then mi else mn) \<in> S)
          \<and> validate_loop L S xs = Inr out
         \<or> (\<not> (text_empty mn \<and> text_empty mi)
             \<and> \<not> text_empty (text_lower L (if \<not> text_empty mi then mi else mn))
             \<and> text_lower L (if \<not> text_empty mi then mi else mn) \<notin> S
             \<and> (\<exists>out'. validate_loop L (insert (text_lower L (if \<not> text_empty mi then mi
                                                                  else mn)) S) xs
                          = Inr out'
                   \<and> out = \<lparr> cm_model = (if \<not> text_empty mn then mn else mi), cm_id = mi,
                              cm_context = clean_context L (rw_context d) \<rparr> # out'))"
  using assms by (auto simp: Let_def split: sum.splits if_splits)

lemma origin_skip_entry: "origin L xs e \<Longrightarrow> origin L (NotADict # xs) e"
  unfolding origin_def
  apply (elim exE conjE)
  subgoal for pre d post mn
    by (rule exI [of _ "NotADict # pre"], rule exI [of _ d], rule exI [of _ post],
        rule exI [of _ mn]) simp
  done

lemma origin_skip_dict:
  "origin L xs e \<Longrightarrow> dict_key L d0 \<noteq> Some (out_key L e) \<Longrightarrow> origin L (ADict d0 # xs) e"
  unfolding origin_def
  apply (elim exE conjE)
  subgoal for pre d post mn
    by (rule exI [of _ "ADict d0 # pre"], rule exI [of _ d], rule exI [of _ post],
        rule exI [of _ mn]) auto
  done

lemma origin_head:
  "strip_field (rw_model d) = Inr mn \<Longrightarrow> strip_field (rw_id d) = Inr mi \<Longrightarrow>
   origin L (ADict d # xs)
     \<lparr> cm_model = (if \<not> text_empty mn then mn else mi), cm_id = mi,
       cm_context = clean_context L (rw_context d) \<rparr>"
  unfolding origin_def
  by (rule exI [of _ "[]"], rule exI [of _ d], rule exI [of _ xs], rule exI [of _ mn]) simp

lemma validate_loop_sound:
  "validate_loop L S xs = Inr out \<Longrightarrow>
     distinct (map (out_key L) out) \<and>
     (\<forall>e \<in> set out. \<not> text_empty (out_key L e) \<and> out_key L e \<notin> S
        \<and> \<not> text_empty (cm_model e) \<and> origin L xs e)"
proof (induction xs arbitrary: S out)
  case Nil
  then show ?case by simp
next
  case (Cons x xs)
  show ?case
  proof (cases x)
    case NotADict
    with Cons.prems have "validate_loop L S xs = Inr out" by simp
    from Cons.IH [OF this] show ?thesis unfolding NotADict
      by (blast intro: origin_skip_entry)
  next
    case (ADict d)
    with Cons.prems have run: "validate_loop L S (ADict d # xs) = Inr out" by simp
    show ?thesis unfolding ADict
    proof (rule validate_loop_Cons_ADict [OF run])
      fix mn mi
      let ?k = "text_lower L (if \<not> text_empty mi then mi else mn)"
      let ?e = "\<lparr> cm_model = (if \<not> text_empty mn then mn else mi), cm_id = mi,
                  cm_context = clean_context L (rw_context d) \<rparr>"
      assume sf: "strip_field (rw_model d) = Inr mn" "strip_field (rw_id d) = Inr mi"
      assume alt: "(text_empty mn \<and> text_empty mi \<or> text_empty ?k \<or> ?k \<in> S)
             \<and> validate_loop L S xs = Inr out
         \<or> (\<not> (text_empty mn \<and> text_empty mi) \<and> \<not> text_empty ?k \<and> ?k \<notin> S
             \<and> (\<exists>out'. validate_loop L (insert ?k S) xs = Inr out' \<and> out = ?e # out'))"
      have dk: "dict_key L d = Some ?k" using sf by (simp add: dict_key_def)
      show "distinct (map (out_key L) out) \<and>
         (\<forall>e \<in> set out. \<not> text_empty (out_key L e) \<and> out_key L e \<notin> S
            \<and> \<not> text_empty (cm_model e) \<and> origin L (ADict d # xs) e)"
      proof (cases "validate_loop L S xs = Inr out
                     \<and> (text_empty mn \<and> text_empty mi \<or> text_empty ?k \<or> ?k \<in> S)")
        case True
        then have rest: "validate_loop L S xs = Inr out"
          and skip: "text_empty mn \<and> text_empty mi \<or> text_empty ?k \<or> ?k \<in> S" by simp_all
        from skip have empty_or_seen: "text_empty ?k \<or> ?k \<in> S"
          by (auto intro: text_lower_empty)
        note ih = Cons.IH [OF rest]
        have "origin L (ADict d # xs) e" if "e \<in> set out" for e
        proof (rule origin_skip_dict)
          from ih that show "origin L xs e" by blast
          from ih that have "\<not> text_empty (out_key L e)" "out_key L e \<notin> S" by blast+
          with empty_or_seen show "dict_key L d \<noteq> Some (out_key L e)" unfolding dk by auto
        qed
        with ih show ?thesis by blast
      next
        case False
        with alt obtain out' where kept: "\<not> (text_empty mn \<and> text_empty mi)"
            "\<not> text_empty ?k" "?k \<notin> S"
          and rest: "validate_loop L (insert ?k S) xs = Inr out'" and out: "out = ?e # out'"
          by blast
        have key: "out_key L ?e = ?k" using kept(1) by (simp add: out_key_def)
        note ih = Cons.IH [OF rest]
        have d1: "distinct (map (out_key L) out)"
          unfolding out using ih key by (auto simp del: text_lower.simps)
        have tail: "\<not> text_empty (out_key L e) \<and> out_key L e \<notin> S
            \<and> \<not> text_empty (cm_model e) \<and> origin L (ADict d # xs) e" if "e \<in> set out'" for e
        proof -
          from ih that have f: "\<not> text_empty (out_key L e)" "out_key L e \<notin> insert ?k S"
            "\<not> text_empty (cm_model e)" "origin L xs e" by blast+
          from f(2) have "dict_key L d \<noteq> Some (out_key L e)" unfolding dk by auto
          from origin_skip_dict [OF f(4) this] f show ?thesis by simp
        qed
        have k1: "\<not> text_empty (out_key L ?e)" unfolding key using kept(2) .
        have k2: "out_key L ?e \<notin> S" unfolding key using kept(3) .
        have k3: "\<not> text_empty (cm_model ?e)" using kept(1) by simp
        have k4: "origin L (ADict d # xs) ?e" using sf by (rule origin_head)
        from k1 k2 k3 k4 tail have "\<forall>e \<in> set out. \<not> text_empty (out_key L e) \<and> out_key L e \<notin> S
            \<and> \<not> text_empty (cm_model e) \<and> origin L (ADict d # xs) e"
          unfolding out by (simp del: text_lower.simps)
        with d1 show ?thesis by simp
      qed
    qed
  qed
qed

text \<open>
  C5 (as amended). In the deduplication of \<open>fetch_modelscope_models\<close> a record with an
  empty key is passed to the output, and the set of seen keys is neither looked at nor
  changed; the records with an empty key come out as they went in. The loop of
  \<open>parse_html_file\<close> and \<open>validate_and_clean_models\<close> never put out a record with an
  empty key.
\<close>

theorem empty_key_passes_in_fetch:
  "(model_key L m = [] \<longrightarrow> dedupe_from L S (m # ms) = m # dedupe_from L S ms)
   \<and> filter (\<lambda>m. model_key L m = []) (dedupe L xs) = filter (\<lambda>m. model_key L m = []) xs
   \<and> (\<forall>m \<in> set (html_loop L S bs). model_key L m \<noteq> [])
   \<and> (\<forall>out. validate_and_clean_models L es = Inr out \<longrightarrow>
         (\<forall>e \<in> set out. \<not> text_empty (out_key L e)))"
  using html_loop_keys [of _ L S bs] validate_loop_sound [of L "{}" es]
  by (auto simp: dedupe_def dedupe_from_empty_keys validate_and_clean_models_def)

section \<open>Properties of the assembly\<close>

lemmas ev_rss = re_elem_def re_guid_def re_cdata_def re_title3_def re_title2_def re_link_id_def
  re_guid_id_def rmatch_start_def extract_cdata_content_def elem_text_def rss_item_def
  opt_field_def rss_model_info_def parse_rss_xml_def

theorem empty_key_passes_in_fetch_witness:
  "model_key ascii_lib (empty_info\<lparr>mi_id := Some (asc '' ''), mi_name := Some (asc ''a'')\<rparr>) = []
   \<and> dedupe_from ascii_lib {}
        [empty_info\<lparr>mi_id := Some (asc '' ''), mi_name := Some (asc ''a'')\<rparr>,
         empty_info\<lparr>mi_id := Some (asc '' ''), mi_name := Some (asc ''a'')\<rparr>]
     = [empty_info\<lparr>mi_id := Some (asc '' ''), mi_name := Some (asc ''a'')\<rparr>,
        empty_info\<lparr>mi_id := Some (asc '' ''), mi_name := Some (asc ''a'')\<rparr>]"
proof -
  let ?a = "empty_info\<lparr>mi_id := Some (asc '' ''), mi_name := Some (asc ''a'')\<rparr>"
  have k: "model_key ascii_lib ?a = []" by (simp add: ev)
  from empty_key_passes_in_fetch [where L = ascii_lib and m = ?a and S = "{}" and ms = "[?a]"] k
  have "dedupe_from ascii_lib {} (?a # [?a]) = ?a # dedupe_from ascii_lib {} [?a]" by blast
  moreover from empty_key_passes_in_fetch [where L = ascii_lib and m = ?a and S = "{}" and ms = "[]"] k
  have "dedupe_from ascii_lib {} [?a] = [?a]" by simp
  ultimately show ?thesis using k by simp
qed

lemma card_blank_id_extract:
  "extract_model_info_from_link ascii_lib card_blank_id
     = Inr (empty_info\<lparr>mi_link := Some (asc ''https://modelscope.cn/models/ /models/''),
                         mi_id := Some (asc '' '')\<rparr>)"
  by (simp add: card_blank_id_def ev)

lemma card_blank_id_blocks: "model_blocks_of ascii_lib card_blank_id = [card_blank_id]"
  by (simp add: card_blank_id_def ev)

lemma card_blank_id_strip: "py_strip card_blank_id = card_blank_id" "card_blank_id \<noteq> []"
  by (simp_all add: card_blank_id_def ev)

lemma blank_assemble:
  "assemble (empty_info\<lparr>mi_link := Some l, mi_id := Some (asc '' '')\<rparr>)
     = Some (empty_info\<lparr>mi_link := Some l, mi_id := Some (asc '' ''), mi_name := Some (asc '' '')\<rparr>)"
  by (simp add: ev)

lemma blank_key:
  "model_key ascii_lib (empty_info\<lparr>mi_link := Some l, mi_id := Some (asc '' ''), mi_name := n\<rparr>) = []"
  by (simp add: ev)

text \<open>
  The claim fails in \<open>parse_html_file\<close>: the card below is assembled into a record with
  the \<open>id\<close> \<open>" "\<close>, whose key is empty, and the record is not in the output.
\<close>

theorem empty_key_counterexample:
  "map (model_key ascii_lib) (page_models ascii_lib [card_blank_id]) = [[]]
   \<and> parse_html_file ascii_lib (Inr card_blank_id) = Inr []"
  by (simp add: page_models_def List.map_filter_def parse_html_file_def card_blank_id_extract
                card_blank_id_blocks card_blank_id_strip blank_assemble blank_key)

lemma rss_loop_kept:
  "m \<in> set (rss_loop L S fs) \<Longrightarrow> rm_id m \<noteq> [] \<and> rm_name m \<noteq> []"
  by (induction fs arbitrary: S) (auto simp: rss_model_info_def split: if_splits)

lemma assemble_Some:
  "assemble mi = Some r \<Longrightarrow>
     truthy (mi_id r) \<and> truthy (mi_name r) \<and>
     mi_id r = (if truthy (mi_id mi) then mi_id mi else mi_name mi) \<and>
     mi_name r = (if truthy (mi_name mi) then mi_name mi else mi_id mi)"
  by (cases "mi_id mi"; cases "mi_name mi")
     (auto simp: assemble_def truthy_def get_str_def Let_def split: if_splits)

lemma assemble_truthy:
  assumes "assemble mi = Some r"
  shows "truthy (mi_id r)" and "truthy (mi_name r)"
  using assemble_Some [OF assms] by blast+

lemma html_loop_assembled:
  "m \<in> set (html_loop L S bs) \<Longrightarrow> truthy (mi_id m) \<and> truthy (mi_name m)"
  by (induction bs arbitrary: S)
     (auto split: if_splits sum.splits option.splits dest: assemble_truthy)

lemma page_models_assembled:
  "m \<in> set (page_models L bs) \<Longrightarrow> truthy (mi_id m) \<and> truthy (mi_name m)"
  by (auto simp: page_models_def List.map_filter_def split: sum.splits option.splits)
     (blast dest: assemble_truthy)+

text \<open>
  C4 (as amended). On the HTML path a dictionary is rejected if and only if it has neither
  \<open>id\<close> nor \<open>name\<close>, a missing one of the two is set to the other, and every record that
  \<open>fetch_modelscope_models\<close> or \<open>parse_html_file\<close> keeps has both. An RSS item is rejected
  whenever it has no identifier (after the title, the link and the guid were tried), also
  when it has a name; a kept item has its identifier as \<open>id\<close>, and as \<open>name\<close> its name or,
  without one, its identifier; every kept item has both.
\<close>

theorem assembly_contract:
  "(assemble mi = None \<longleftrightarrow> \<not> truthy (mi_id mi) \<and> \<not> truthy (mi_name mi))
   \<and> (\<forall>r. assemble mi = Some r \<longrightarrow>
         truthy (mi_id r) \<and> truthy (mi_name r) \<and>
         mi_id r = (if truthy (mi_id mi) then mi_id mi else mi_name mi) \<and>
         mi_name r = (if truthy (mi_name mi) then mi_name mi else mi_id mi))
   \<and> (\<forall>m \<in> set (page_models L blocks). truthy (mi_id m) \<and> truthy (mi_name m))
   \<and> (\<forall>m \<in> set (html_loop L S blocks). truthy (mi_id m) \<and> truthy (mi_name m))
   \<and> (rf_model_id f = [] \<longrightarrow> rss_loop L T (f # fs) = rss_loop L T fs)
   \<and> (rf_model_id f \<noteq> [] \<and> py_lower L (rf_model_id f) \<notin> T \<longrightarrow>
         rss_loop L T (f # fs)
           = rss_model_info f # rss_loop L (insert (py_lower L (rf_model_id f)) T) fs
         \<and> rm_id (rss_model_info f) = rf_model_id f
         \<and> rm_name (rss_model_info f)
             = (if rf_model_name f \<noteq> [] then rf_model_name f else rf_model_id f))
   \<and> (\<forall>m \<in> set (rss_loop L T fs). rm_id m \<noteq> [] \<and> rm_name m \<noteq> [])"
proof -
  have "assemble mi = None \<longleftrightarrow> \<not> truthy (mi_id mi) \<and> \<not> truthy (mi_name mi)"
    by (simp add: assemble_def Let_def)
  then show ?thesis
    using assemble_Some [of mi] page_models_assembled [of _ L blocks]
      html_loop_assembled [of _ L S blocks] rss_loop_kept [of _ L T fs]
    by (simp add: rss_model_info_def)
qed

theorem assembly_contract_witness:
  "assemble (empty_info\<lparr>mi_id := Some (asc ''x'')\<rparr>)
     = Some (empty_info\<lparr>mi_id := Some (asc ''x''), mi_name := Some (asc ''x'')\<rparr>)
   \<and> truthy (mi_id (empty_info\<lparr>mi_id := Some (asc ''x''), mi_name := Some (asc ''x'')\<rparr>))
   \<and> truthy (mi_name (empty_info\<lparr>mi_id := Some (asc ''x''), mi_name := Some (asc ''x'')\<rparr>))
   \<and> assemble empty_info = None"
proof -
  let ?mi = "empty_info\<lparr>mi_id := Some (asc ''x'')\<rparr>"
  let ?r = "empty_info\<lparr>mi_id := Some (asc ''x''), mi_name := Some (asc ''x'')\<rparr>"
  have a: "assemble ?mi = Some ?r" by (simp add: ev)
  have n: "\<not> truthy (mi_id empty_info) \<and> \<not> truthy (mi_name empty_info)" by (simp add: ev)
  from assembly_contract [where mi = ?mi] a have "truthy (mi_id ?r) \<and> truthy (mi_name ?r)"
    by blast
  moreover from assembly_contract [where mi = empty_info] n have "assemble empty_info = None"
    by blast
  ultimately show ?thesis using a by simp
qed

text \<open>
  The claim fails on the RSS path: an item with the title \<open>Foo\<close>, without link and guid,
  has a name and no identifier, and is rejected.
\<close>

theorem assembly_contract_counterexample:
  "rf_model_name (rss_item ascii_lib (asc ''<title>Foo</title>'')) = asc ''Foo''
   \<and> rf_model_id (rss_item ascii_lib (asc ''<title>Foo</title>'')) = []
   \<and> parse_rss_xml ascii_lib (asc ''<item><title>Foo</title></item>'') = Inr []"
  by (simp add: ev ev_rss)

section \<open>Properties of \<open>validate_and_clean_models\<close>\<close>

lemma dropWhile_all: "\<forall>x \<in> set xs. P x \<Longrightarrow> dropWhile P xs = []"
  by simp

lemma rmatch_digits:
  "rmatch L re_digits s [] =
     (if takeWhile (py_isdecimal L) s = [] then None
      else Some ([s, dropWhile (py_isdecimal L) s], dropWhile (py_isdecimal L) s))"
proof -
  have cl: "in_class L Digit = py_isdecimal L" by (rule ext) simp
  have d: "drop (length (takeWhile (py_isdecimal L) s)) s = dropWhile (py_isdecimal L) s"
    by (simp add: dropWhile_eq_drop)
  show ?thesis
    by (simp add: re_digits_def cl d Suc_le_eq)
qed

lemma grp_digits:
  "grp [s, dropWhile P s] 0 = takeWhile P s"
proof -
  have "length s - length (dropWhile P s) = length (takeWhile P s)"
    by (metis add_diff_cancel_right' length_append takeWhile_dropWhile_id)
  then have "take (length s - length (dropWhile P s)) s = takeWhile P s"
    by (metis takeWhile_eq_take)
  then show ?thesis by (simp add: grp_def)
qed

lemma rsearch_from_digits:
  "map_option snd (rsearch_from L re_digits i s) =
     (if dropWhile (\<lambda>c. \<not> py_isdecimal L c) s = [] then None
      else Some [dropWhile (\<lambda>c. \<not> py_isdecimal L c) s,
                 dropWhile (py_isdecimal L) (dropWhile (\<lambda>c. \<not> py_isdecimal L c) s)])"
proof (induction s arbitrary: i)
  case Nil
  show ?case by (simp add: rmatch_digits)
next
  case (Cons c cs)
  show ?case
  proof (cases "py_isdecimal L c")
    case True
    then show ?thesis by (simp add: rmatch_digits)
  next
    case False
    then show ?thesis using Cons.IH [of "Suc i"] by (simp add: rmatch_digits)
  qed
qed

lemma search_digits:
  "(case rsearch L re_digits s of Some ms \<Rightarrow> grp ms 0 | None \<Rightarrow> []) = first_digit_run L s"
  unfolding rsearch_def rsearch_from_digits first_digit_run_def
  by (auto simp: grp_digits dropWhile_all)

lemma dropWhile_dropWhile_weaker:
  "(\<And>x. Q x \<Longrightarrow> P x) \<Longrightarrow> dropWhile P (dropWhile Q xs) = dropWhile P xs"
  by (induction xs) auto

lemma run_append_blank:
  assumes "\<forall>x \<in> set w. \<not> D x"
  shows "takeWhile D (dropWhile (\<lambda>c. \<not> D c) (t @ w)) = takeWhile D (dropWhile (\<lambda>c. \<not> D c) t)"
proof (induction t)
  case Nil
  show ?case using assms by (simp add: dropWhile_all)
next
  case (Cons a t)
  show ?case
  proof (cases "D a")
    case False
    with Cons show ?thesis by simp
  next
    case True
    have "takeWhile D (t @ w) = takeWhile D t"
    proof (cases "\<forall>x \<in> set t. D x")
      case True
      then have 1: "takeWhile D (t @ w) = t @ takeWhile D w" by (simp add: takeWhile_append2)
      have 2: "takeWhile D w = []" using assms by (cases w) auto
      have 3: "takeWhile D t = t" using True by (simp add: takeWhile_eq_all_conv)
      show ?thesis by (simp only: 1 2 3 append_Nil2)
    next
      case False
      then obtain x where "x \<in> set t" "\<not> D x" by blast
      then show ?thesis by (rule takeWhile_append1)
    qed
    with True show ?thesis by simp
  qed
qed

lemma strip_run:
  assumes "\<forall>c. py_isspace c \<longrightarrow> \<not> py_isdecimal L c"
  shows "first_digit_run L (py_strip s) = first_digit_run L s"
proof -
  let ?s' = "dropWhile py_isspace s"
  obtain w where w: "?s' = py_strip s @ w" "\<forall>x \<in> set w. py_isspace x"
  proof
    show "?s' = py_strip s @ rev (takeWhile py_isspace (rev ?s'))"
      unfolding py_strip_def
      by (metis rev_append rev_rev_ident takeWhile_dropWhile_id)
    show "\<forall>x \<in> set (rev (takeWhile py_isspace (rev ?s'))). py_isspace x"
      by (auto dest: set_takeWhileD)
  qed
  have "first_digit_run L s = first_digit_run L ?s'"
    unfolding first_digit_run_def
    using dropWhile_dropWhile_weaker [of py_isspace "\<lambda>c. \<not> py_isdecimal L c" s] assms
    by simp
  also have "\<dots> = first_digit_run L (py_strip s)"
    unfolding first_digit_run_def w(1)
    using run_append_blank [of w "py_isdecimal L" "py_strip s"] w(2) assms by blast
  finally show ?thesis by simp
qed

lemma clean_context_run:
  assumes "\<forall>c. py_isspace c \<longrightarrow> \<not> py_isdecimal L c"
  shows "clean_context L v = first_digit_run L (str_of v)"
proof (cases "py_strip (str_of v) = []")
  case True
  have "first_digit_run L (py_strip (str_of v)) = []" using True by (simp add: first_digit_run_def)
  with strip_run [OF assms, of "str_of v"] True show ?thesis by (simp add: clean_context_def)
next
  case False
  then show ?thesis
    using strip_run [OF assms, of "str_of v"] search_digits [of L "py_strip (str_of v)"]
    by (simp add: clean_context_def)
qed

lemma strip_field_returns:
  "has_strip_and_hash v \<Longrightarrow> \<exists>t. strip_field v = Inr t \<and> (\<forall>b. t \<noteq> TByteArray b)"
  by (cases v rule: has_strip_and_hash.cases) (simp_all add: strip_field_def)

lemma text_lower_hashable: "\<forall>b. t \<noteq> TByteArray b \<Longrightarrow> hashable (text_lower L t)"
  by (cases t) simp_all

lemma validate_loop_returns:
  "\<forall>d. ADict d \<in> set xs \<longrightarrow> has_strip_and_hash (rw_model d) \<and> has_strip_and_hash (rw_id d) \<Longrightarrow>
   \<exists>out. validate_loop L S xs = Inr out"
proof (induction xs arbitrary: S)
  case Nil
  show ?case by simp
next
  case (Cons x xs)
  then have ih: "\<exists>out. validate_loop L S' xs = Inr out" for S' by simp
  show ?case
  proof (cases x)
    case NotADict
    with ih show ?thesis by simp
  next
    case (ADict d)
    with Cons.prems obtain mn mi where sf: "strip_field (rw_model d) = Inr mn"
        "strip_field (rw_id d) = Inr mi" and nb: "\<forall>b. mn \<noteq> TByteArray b" "\<forall>b. mi \<noteq> TByteArray b"
      using strip_field_returns [of "rw_model d"] strip_field_returns [of "rw_id d"] by auto
    let ?k = "text_lower L (if \<not> text_empty mi then mi else mn)"
    have h: "hashable ?k" using nb by (simp add: text_lower_hashable)
    from ih [of S] obtain o1 where o1: "validate_loop L S xs = Inr o1" ..
    from ih [of "insert ?k S"] obtain o2 where o2: "validate_loop L (insert ?k S) xs = Inr o2" ..
    show ?thesis unfolding ADict using sf h o1 o2
      by (cases "text_empty mi") (auto simp: Let_def simp del: text_lower.simps)
  qed
qed

lemmas ev_validate = strip_field_def str_of_def re_digits_def clean_context_def
  validate_and_clean_models_def out_key_def first_digit_run_def bytes_strip_def bytes_isspace_def

text \<open>
  A call returns when every \<open>model\<close> and \<open>id\<close> is absent, a string or a \<open>bytes\<close> object
  (\<open>validate_loop_returns\<close>); it raises on a number and on a non-empty \<open>bytearray\<close>.
\<close>

lemma bytearray_key_raises:
  "validate_and_clean_models ascii_lib
     [ADict \<lparr>rw_model = None, rw_id = Some (ByteArray [97] (asc ''bytearray(b a)'')),
             rw_context = None\<rparr>] = Inl TypeError"
  "validate_and_clean_models ascii_lib
     [ADict \<lparr>rw_model = Some (Other (asc ''7'')), rw_id = None, rw_context = None\<rparr>]
   = Inl AttributeError"
  by (simp_all add: ev ev_validate)

text \<open>
  C10. Every entry of the output of \<open>validate_and_clean_models\<close> comes from one dictionary
  of the input, the first that has the entry's key (lowercased id-or-model): the entry's
  \<open>id\<close> is that dictionary's, stripped; its \<open>model\<close> is that dictionary's, stripped, or the
  \<open>id\<close> when that is empty, and is not empty; its \<open>context\<close> is the first maximal run of
  decimal digits of the string form of that dictionary's \<open>context\<close>, which is empty when
  there is no digit; and the keys of the output are pairwise distinct. The table of
  decimal digits is assumed to hold no whitespace character.
\<close>

theorem validated_entries:
  assumes "validate_and_clean_models L models = Inr out"
    and "\<forall>c. py_isspace c \<longrightarrow> \<not> py_isdecimal L c"
  shows "distinct (map (out_key L) out) \<and>
         (\<forall>e \<in> set out.
            \<not> text_empty (cm_model e) \<and>
            (\<exists>pre d post mn.
               models = pre @ ADict d # post
               \<and> (\<forall>d'. ADict d' \<in> set pre \<longrightarrow> dict_key L d' \<noteq> Some (out_key L e))
               \<and> dict_key L d = Some (out_key L e)
               \<and> strip_field (rw_model d) = Inr mn
               \<and> strip_field (rw_id d) = Inr (cm_id e)
               \<and> cm_model e = (if \<not> text_empty mn then mn else cm_id e)
               \<and> cm_context e = first_digit_run L (str_of (rw_context d))))"
proof -
  from assms(1) have run: "validate_loop L {} models = Inr out"
    by (simp add: validate_and_clean_models_def)
  note sound = validate_loop_sound [OF run]
  have "\<not> text_empty (cm_model e) \<and>
            (\<exists>pre d post mn.
               models = pre @ ADict d # post
               \<and> (\<forall>d'. ADict d' \<in> set pre \<longrightarrow> dict_key L d' \<noteq> Some (out_key L e))
               \<and> dict_key L d = Some (out_key L e)
               \<and> strip_field (rw_model d) = Inr mn
               \<and> strip_field (rw_id d) = Inr (cm_id e)
               \<and> cm_model e = (if \<not> text_empty mn then mn else cm_id e)
               \<and> cm_context e = first_digit_run L (str_of (rw_context d)))"
    if e: "e \<in> set out" for e
  proof -
    from sound e have ne: "\<not> text_empty (cm_model e)" and org: "origin L models e" by blast+
    from org obtain pre d post mn where o: "models = pre @ ADict d # post"
        "\<forall>d'. ADict d' \<in> set pre \<longrightarrow> dict_key L d' \<noteq> Some (out_key L e)"
        "strip_field (rw_model d) = Inr mn" "strip_field (rw_id d) = Inr (cm_id e)"
        "cm_model e = (if \<not> text_empty mn then mn else cm_id e)"
        "cm_context e = clean_context L (rw_context d)"
      unfolding origin_def by blast
    have dk: "dict_key L d = Some (out_key L e)"
      using o(3,4,5) ne by (auto simp: dict_key_def out_key_def)
    have cx: "cm_context e = first_digit_run L (str_of (rw_context d))"
      using o(6) clean_context_run [OF assms(2)] by simp
    from ne o(1,2,3,4,5) dk cx show ?thesis by blast
  qed
  with sound show ?thesis by blast
qed

theorem validated_entries_witness:
  "validate_and_clean_models ascii_lib
     [NotADict,
      ADict \<lparr>rw_model = Some (Str (asc '' GPT '')), rw_id = None,
             rw_context = Some (Other (asc ''8192''))\<rparr>,
      ADict \<lparr>rw_model = None, rw_id = Some (Str (asc ''gpt'')),
             rw_context = Some (Str (asc ''128k''))\<rparr>,
      ADict \<lparr>rw_model = Some (Bytes [32, 71, 80, 84] (asc ''b GPT'')), rw_id = None,
             rw_context = Some (Str (asc ''4k''))\<rparr>,
      ADict \<lparr>rw_model = Some (Str (asc ''m'')), rw_id = Some (Str (asc ''a/b'')),
             rw_context = Some (Str (asc '' ctx 32k or 64k ''))\<rparr>]
     = Inr [\<lparr>cm_model = TStr (asc ''GPT''), cm_id = TStr [], cm_context = asc ''8192''\<rparr>,
            \<lparr>cm_model = TBytes [71, 80, 84], cm_id = TStr [], cm_context = asc ''4''\<rparr>,
            \<lparr>cm_model = TStr (asc ''m''), cm_id = TStr (asc ''a/b''), cm_context = asc ''32''\<rparr>]
   \<and> distinct (map (out_key ascii_lib)
        [\<lparr>cm_model = TStr (asc ''GPT''), cm_id = TStr [], cm_context = asc ''8192''\<rparr>,
         \<lparr>cm_model = TBytes [71, 80, 84], cm_id = TStr [], cm_context = asc ''4''\<rparr>,
         \<lparr>cm_model = TStr (asc ''m''), cm_id = TStr (asc ''a/b''), cm_context = asc ''32''\<rparr>])"
proof -
  have run: "validate_and_clean_models ascii_lib
     [NotADict,
      ADict \<lparr>rw_model = Some (Str (asc '' GPT '')), rw_id = None,
             rw_context = Some (Other (asc ''8192''))\<rparr>,
      ADict \<lparr>rw_model = None, rw_id = Some (Str (asc ''gpt'')),
             rw_context = Some (Str (asc ''128k''))\<rparr>,
      ADict \<lparr>rw_model = Some (Bytes [32, 71, 80, 84] (asc ''b GPT'')), rw_id = None,
             rw_context = Some (Str (asc ''4k''))\<rparr>,
      ADict \<lparr>rw_model = Some (Str (asc ''m'')), rw_id = Some (Str (asc ''a/b'')),
             rw_context = Some (Str (asc '' ctx 32k or 64k ''))\<rparr>]
     = Inr [\<lparr>cm_model = TStr (asc ''GPT''), cm_id = TStr [], cm_context = asc ''8192''\<rparr>,
            \<lparr>cm_model = TBytes [71, 80, 84], cm_id = TStr [], cm_context = asc ''4''\<rparr>,
            \<lparr>cm_model = TStr (asc ''m''), cm_id = TStr (asc ''a/b''), cm_context = asc ''32''\<rparr>]"
    by (simp add: ev ev_validate)
  have tbl: "\<forall>c. py_isspace c \<longrightarrow> \<not> py_isdecimal ascii_lib c"
    by (auto simp: py_isspace_def py_isdecimal_def ascii_lib_def)
  from validated_entries [OF run tbl] run show ?thesis by blast
qed

section \<open>Properties of the link and identifier rules\<close>

lemma c4_rule_keeps_id: "mi_id mi \<noteq> None \<Longrightarrow> mi_id (c4_rule L link_html mi) = mi_id mi"
  by (auto simp: c4_rule_def Let_def split: option.splits)

lemma c4_rule_keeps_organization:
  "mi_organization mi \<noteq> None \<Longrightarrow> mi_organization (c4_rule L link_html mi) = mi_organization mi"
  by (auto simp: c4_rule_def Let_def split: option.splits)

lemma c4_rule_keeps_link: "mi_link (c4_rule L link_html mi) = mi_link mi"
  by (auto simp: c4_rule_def Let_def split: option.splits)

lemma href_rule_prefixed:
  "rsearch L re_href link_html = Some ms \<Longrightarrow> startswith (asc ''/models/'') (py_strip (grp ms 0))
   \<Longrightarrow> mi_link (href_rule L link_html mi) = Some (asc ''https://modelscope.cn'' @ py_strip (grp ms 0))
     \<and> mi_id (href_rule L link_html mi)
         = Some (py_replace (asc ''/models/'') [] (py_strip (grp ms 0)))"
  by (simp add: href_rule_def Let_def)

text \<open>
  C7. For the anchor \<open><a href="/models/a/models/b">x</a>\<close> the link is the origin
  followed by the reference, but the identifier is \<open>ab\<close> and no organisation is set:
  \<open>href.replace("/models/", "")\<close> removes every occurrence of the prefix, not the leading
  one only. The path tail after the prefix is \<open>a/models/b\<close>, with first segment \<open>a\<close>.
\<close>

theorem href_tail_replace_all:
  "extract_model_info_from_link ascii_lib (asc ''<a href=\"/models/a/models/b\">x</a>'')
     = Inr (empty_info\<lparr>mi_link := Some (asc ''https://modelscope.cn/models/a/models/b''),
                         mi_id := Some (asc ''ab'')\<rparr>)
   \<and> drop (length (asc ''/models/'')) (asc ''/models/a/models/b'') = asc ''a/models/b''"
  by (simp add: ev)

section \<open>Properties of the task tagger\<close>

lemma valid_match_empty:
  "valid_match all_text keyword [] ms \<noteq> None
     \<longleftrightarrow> list_ex (\<lambda>(start, end, m). is_before_valid all_text start \<and> is_after_valid all_text end) ms"
  by (induction ms) (auto simp: is_in_matched_range_def overlaps_def)

lemma task_loop_find: "task_loop L all_text [] kws = find (accepted L all_text) kws"
proof (induction kws)
  case Nil
  show ?case by simp
next
  case (Cons kw kws)
  show ?case
  proof (cases "accepted L all_text kw")
    case True
    then have "valid_match all_text kw [] (finditer L (re_keyword kw) all_text) \<noteq> None"
      using valid_match_empty [of all_text kw "finditer L (re_keyword kw) all_text"]
      unfolding accepted_def by blast
    then show ?thesis using True by (auto split: option.splits)
  next
    case False
    then have "valid_match all_text kw [] (finditer L (re_keyword kw) all_text) = None"
      using valid_match_empty [of all_text kw "finditer L (re_keyword kw) all_text"]
      unfolding accepted_def by blast
    then show ?thesis using False Cons.IH by simp
  qed
qed

lemma task_type_find: "task_type L all_text = find (accepted L all_text) task_keywords"
  by (simp add: task_type_def task_loop_find)

lemma latin_facts:
  assumes "is_latin x"
  shows "x < 128" "65 \<le> x" "\<not> py_isspace x" "\<not> is_cjk x" "x \<notin> set punct_marks"
  using assms by (auto simp: is_latin_def py_isspace_def is_cjk_def punct_marks_def)

lemmas ev_tag = accepted_def finditer_def re_keyword_def ci_match_def is_before_valid_def
  is_after_valid_def

lemma latin_between_none:
  assumes "is_latin x" "is_latin y"
  shows "\<forall>kw \<in> set task_keywords. find (accepted L (x # kw @ [y])) task_keywords = None"
  using latin_facts [OF assms(1)] latin_facts [OF assms(2)]
  unfolding task_keywords_def
  by (simp add: ev_tag)

lemma spaced_some:
  assumes "is_latin x" "is_latin y"
  shows "\<forall>kw \<in> set task_keywords.
           find (accepted L ([x, 32] @ kw @ [32, y])) task_keywords = Some kw"
  using latin_facts [OF assms(1)] latin_facts [OF assms(2)]
  unfolding task_keywords_def
  by (simp add: ev_tag py_isspace_def)


lemmas ev_kw = kw_wenzi_tupian_def kw_wenben_tupian_def kw_wenben_def kw_shijue_duomotai_def
  kw_duomotai_def

text \<open>
  C2 (as amended). The tagger returns the first keyword, in the order of the list, that
  is accepted in the text, and only that one. So when \<open>wenben shengcheng tupian\<close> is
  accepted and \<open>wenzi shengcheng tupian\<close>, the only keyword before it, is not, the result is
  \<open>wenben shengcheng tupian\<close>, never \<open>wenben shengcheng\<close>; for the text made of
  \<open>wenben shengcheng tupian\<close> directly followed by \<open>wenben shengcheng\<close> it is so.
\<close>

theorem tagger_single_label:
  "task_type L all_text = find (accepted L all_text) task_keywords
   \<and> (accepted L all_text kw_wenben_tupian \<and> \<not> accepted L all_text kw_wenzi_tupian
        \<longrightarrow> task_type L all_text = Some kw_wenben_tupian)
   \<and> task_type L (kw_wenben_tupian @ kw_wenben) = Some kw_wenben_tupian"
proof -
  have "task_type L (kw_wenben_tupian @ kw_wenben) = Some kw_wenben_tupian"
    unfolding task_type_find by (simp add: task_keywords_def ev_kw ev_tag is_cjk_def)
  moreover have "accepted L all_text kw_wenben_tupian \<and> \<not> accepted L all_text kw_wenzi_tupian
        \<longrightarrow> task_type L all_text = Some kw_wenben_tupian"
    unfolding task_type_find by (simp add: task_keywords_def ev_kw)
  ultimately show ?thesis by (simp add: task_type_find)
qed

theorem tagger_single_label_witness:
  "accepted ascii_lib (asc ''new '' @ kw_wenben_tupian @ asc '' model'') kw_wenben_tupian
   \<and> \<not> accepted ascii_lib (asc ''new '' @ kw_wenben_tupian @ asc '' model'') kw_wenzi_tupian
   \<and> task_type ascii_lib (asc ''new '' @ kw_wenben_tupian @ asc '' model'') = Some kw_wenben_tupian"
proof -
  let ?t = "asc ''new '' @ kw_wenben_tupian @ asc '' model''"
  have a: "accepted ascii_lib ?t kw_wenben_tupian"
    by (simp add: ev_kw ev_tag asc_def py_isspace_def)
  have b: "\<not> accepted ascii_lib ?t kw_wenzi_tupian"
    by (simp add: ev_kw ev_tag asc_def py_isspace_def)
  from tagger_single_label [of ascii_lib ?t] a b show ?thesis by blast
qed

text \<open>
  The claim fails when the long phrase has no valid boundary: in the text
  \<open>wenben shengcheng tupian\<close> followed by the letter \<open>a\<close> the long phrase is rejected,
  and \<open>wenben shengcheng\<close>, at the start of the text and followed by an ideograph, is
  returned.
\<close>

theorem tagger_single_label_counterexample:
  "is_substr kw_wenben_tupian (kw_wenben_tupian @ asc ''a'')
   \<and> task_type ascii_lib (kw_wenben_tupian @ asc ''a'') = Some kw_wenben"
  unfolding task_type_find
  by (simp add: task_keywords_def ev_kw ev_tag asc_def is_substr_def py_find_def startswith_def
                is_cjk_def py_isspace_def punct_marks_def)

lemma latin_neighbour_invalid:
  "0 < start \<Longrightarrow> is_latin (all_text ! (start - 1)) \<Longrightarrow> \<not> is_before_valid all_text start"
  "stop < length all_text \<Longrightarrow> is_latin (all_text ! stop) \<Longrightarrow> \<not> is_after_valid all_text stop"
  by (auto simp: is_before_valid_def is_after_valid_def Let_def dest: latin_facts)

lemma boundary_char_model:
  "boundary_char c \<longleftrightarrow> py_isspace c \<or> c \<in> set punct_marks \<or> is_cjk c"
  unfolding boundary_char_def py_isspace_def punct_marks_def is_cjk_def
  by (simp only: set_simps insert_iff empty_iff) presburger

lemma before_valid_iff:
  "is_before_valid all_text start \<longleftrightarrow> start = 0 \<or> boundary_char (all_text ! (start - 1))"
  by (auto simp: is_before_valid_def Let_def boundary_char_model)

lemma after_valid_iff:
  "is_after_valid all_text stop \<longleftrightarrow> stop \<ge> length all_text \<or> boundary_char (all_text ! stop)"
  by (auto simp: is_after_valid_def Let_def boundary_char_model)

lemma rmatch_keyword:
  "\<forall>c \<in> set kw. \<not> is_latin c \<Longrightarrow> rmatch L (re_keyword kw) s ms = Some (ms', r)
     \<Longrightarrow> ms' = ms \<and> s = kw @ r"
proof (induction kw arbitrary: s)
  case Nil
  then show ?case by (simp add: re_keyword_def)
next
  case (Cons c kw)
  from Cons.prems(1) have c: "ci_match c x \<longleftrightarrow> x = c" for x
    by (auto simp: ci_match_def is_latin_def)
  from Cons.prems(2) obtain x xs where s: "s = x # xs" "x = c"
    and rest: "rmatch L (re_keyword kw) xs ms = Some (ms', r)"
    by (cases s) (auto simp: re_keyword_def c split: if_splits)
  from Cons.IH [OF _ rest] Cons.prems(1) show ?case by (simp add: s)
qed

lemma rscan_None:
  "rmatch L p s [] = None
     \<Longrightarrow> rscan L p i s = (case s of [] \<Rightarrow> [] | c # cs \<Rightarrow> rscan L p (Suc i) cs)"
  by (subst rscan.simps) (simp del: rscan.simps)

lemma rscan_Some:
  "rmatch L p s [] = Some (ms, r) \<Longrightarrow> length r < length s
     \<Longrightarrow> rscan L p i s
         = (i, i + (length s - length r), ms) # rscan L p (i + (length s - length r)) r"
  by (subst rscan.simps) (simp del: rscan.simps)

lemma rscan_keyword_spans:
  assumes "\<forall>c \<in> set kw. \<not> is_latin c" and "kw \<noteq> []"
  shows "(i, j, m) \<in> set (rscan L (re_keyword kw) off s)
           \<Longrightarrow> \<exists>pre post. s = pre @ kw @ post \<and> i = off + length pre \<and> j = i + length kw"
proof (induction "length s" arbitrary: s off rule: less_induct)
  case less
  show ?case
  proof (cases "rmatch L (re_keyword kw) s []")
    case None
    with less.prems obtain c cs where s: "s = c # cs"
      and mem: "(i, j, m) \<in> set (rscan L (re_keyword kw) (Suc off) cs)"
      by (cases s) (auto simp: rscan_None simp del: rscan.simps)
    from less.hyps [of cs "Suc off"] mem s obtain pre post
      where "cs = pre @ kw @ post" "i = Suc off + length pre" "j = i + length kw" by auto
    then have "s = (c # pre) @ kw @ post \<and> i = off + length (c # pre) \<and> j = i + length kw"
      using s by simp
    then show ?thesis by blast
  next
    case (Some a)
    obtain ms r where a: "a = (ms, r)" by (cases a)
    from rmatch_keyword [OF assms(1)] Some a have s: "s = kw @ r" by blast
    then have len: "length r < length s" "length s - length r = length kw"
      using assms(2) by simp_all
    have "rscan L (re_keyword kw) off s
            = (off, off + length kw, ms) # rscan L (re_keyword kw) (off + length kw) r"
      using rscan_Some [of L "re_keyword kw" s ms r off] Some a len by simp
    with less.prems
    consider "i = off" "j = off + length kw"
      | "(i, j, m) \<in> set (rscan L (re_keyword kw) (off + length kw) r)"
      by (auto simp del: rscan.simps)
    then show ?thesis
    proof cases
      case 1
      then have "s = [] @ kw @ r \<and> i = off + length ([]::ustr) \<and> j = i + length kw"
        using s by simp
      then show ?thesis by blast
    next
      case 2
      from less.hyps [OF len(1) 2] obtain pre post
        where "r = pre @ kw @ post" "i = off + length kw + length pre" "j = i + length kw"
        by auto
      then have "s = (kw @ pre) @ kw @ post \<and> i = off + length (kw @ pre) \<and> j = i + length kw"
        using s by simp
      then show ?thesis by blast
    qed
  qed
qed

lemma accepted_occurrence:
  assumes "\<forall>c \<in> set kw. \<not> is_latin c" and "kw \<noteq> []" and "accepted L all_text kw"
  shows "\<exists>pre post. all_text = pre @ kw @ post \<and> (pre = [] \<or> boundary_char (last pre))
           \<and> (post = [] \<or> boundary_char (hd post))"
proof -
  from assms(3) obtain i j m where mem: "(i, j, m) \<in> set (finditer L (re_keyword kw) all_text)"
    and b: "is_before_valid all_text i" and a: "is_after_valid all_text j"
    by (auto simp: accepted_def list_ex_iff)
  from rscan_keyword_spans [OF assms(1,2)] mem obtain pre post
    where t: "all_text = pre @ kw @ post" and i: "i = length pre" and j: "j = i + length kw"
    unfolding finditer_def by fastforce
  have "pre = [] \<or> boundary_char (last pre)"
  proof (cases "pre = []")
    case False
    then have "all_text ! (i - 1) = last pre"
      by (simp add: t i nth_append last_conv_nth)
    with b False show ?thesis by (simp add: before_valid_iff i)
  qed simp
  moreover have "post = [] \<or> boundary_char (hd post)"
  proof (cases "post = []")
    case False
    then have "all_text ! j = hd post" "j < length all_text"
      by (simp_all add: t i j nth_append hd_conv_nth)
    with a show ?thesis by (simp add: after_valid_iff)
  qed simp
  ultimately show ?thesis using t by blast
qed

lemma keywords_uncased: "\<forall>kw \<in> set task_keywords. (\<forall>c \<in> set kw. \<not> is_latin c) \<and> kw \<noteq> []"
  by (simp add: task_keywords_def is_latin_def)

lemma latin_not_boundary: "is_latin c \<Longrightarrow> \<not> boundary_char c"
  by (auto simp: is_latin_def boundary_char_def)

text \<open>
  C6 (as amended). The boundary before an occurrence is valid exactly when the occurrence
  starts the text or the character before it is a whitespace character, one of the seven
  punctuation marks or an ideograph of the range U+4E00 to U+9FFF, and likewise for the
  boundary after it. A returned tag is a keyword that occurs in the text with such a
  boundary on both sides. A Latin letter is no such character, so an occurrence with a
  Latin letter immediately before it or immediately after it is not accepted. For every
  keyword, between two Latin letters without separators no tag is returned, and between
  two Latin letters with a blank on each side the keyword is returned.
\<close>

theorem tagger_boundary_rule:
  "(is_before_valid all_text start \<longleftrightarrow> start = 0 \<or> boundary_char (all_text ! (start - 1)))
   \<and> (is_after_valid all_text stop
        \<longleftrightarrow> stop \<ge> length all_text \<or> boundary_char (all_text ! stop))
   \<and> (task_type L all_text = Some kw \<longrightarrow>
         kw \<in> set task_keywords \<and> accepted L all_text kw \<and>
         (\<exists>pre post. all_text = pre @ kw @ post \<and>
            (pre = [] \<or> boundary_char (last pre)) \<and> (post = [] \<or> boundary_char (hd post))))
   \<and> (is_latin c \<longrightarrow> \<not> boundary_char c)
   \<and> (0 < start \<and> is_latin (all_text ! (start - 1)) \<longrightarrow> \<not> is_before_valid all_text start)
   \<and> (stop < length all_text \<and> is_latin (all_text ! stop) \<longrightarrow> \<not> is_after_valid all_text stop)
   \<and> (is_latin x \<and> is_latin y \<and> phrase \<in> set task_keywords \<longrightarrow>
         task_type L (x # phrase @ [y]) = None
         \<and> task_type L ([x, 32] @ phrase @ [32, y]) = Some phrase)"
proof -
  have tag: "task_type L all_text = Some kw \<longrightarrow>
         kw \<in> set task_keywords \<and> accepted L all_text kw \<and>
         (\<exists>pre post. all_text = pre @ kw @ post \<and>
            (pre = [] \<or> boundary_char (last pre)) \<and> (post = [] \<or> boundary_char (hd post)))"
  proof
    assume "task_type L all_text = Some kw"
    then have k: "kw \<in> set task_keywords" and a: "accepted L all_text kw"
      unfolding task_type_find by (auto simp: find_Some_iff)
    from keywords_uncased k have "\<forall>c \<in> set kw. \<not> is_latin c" "kw \<noteq> []" by auto
    from accepted_occurrence [OF this a] k a
    show "kw \<in> set task_keywords \<and> accepted L all_text kw \<and>
         (\<exists>pre post. all_text = pre @ kw @ post \<and>
            (pre = [] \<or> boundary_char (last pre)) \<and> (post = [] \<or> boundary_char (hd post)))"
      by blast
  qed
  have rest: "(0 < start \<and> is_latin (all_text ! (start - 1)) \<longrightarrow> \<not> is_before_valid all_text start)
   \<and> (stop < length all_text \<and> is_latin (all_text ! stop) \<longrightarrow> \<not> is_after_valid all_text stop)
   \<and> (is_latin x \<and> is_latin y \<and> phrase \<in> set task_keywords \<longrightarrow>
         task_type L (x # phrase @ [y]) = None
         \<and> task_type L ([x, 32] @ phrase @ [32, y]) = Some phrase)"
    using latin_neighbour_invalid [of start all_text] latin_neighbour_invalid(2) [of stop all_text]
      latin_between_none [of x y L] spaced_some [of x y L]
    unfolding task_type_find by blast
  show ?thesis
    using before_valid_iff [of all_text start] after_valid_iff [of all_text stop] tag
      latin_not_boundary [of c] rest
    by (intro conjI) blast+
qed

theorem tagger_boundary_rule_witness:
  "task_type ascii_lib (asc ''X'' @ kw_wenben @ asc ''Y'') = None
   \<and> task_type ascii_lib (asc ''X '' @ kw_wenben @ asc '' Y'') = Some kw_wenben
   \<and> \<not> is_before_valid (asc ''X'' @ kw_wenben @ asc ''Y'') 1
   \<and> \<not> is_after_valid (asc ''X'' @ kw_wenben @ asc ''Y'') 5"
proof -
  have l: "is_latin 88" "is_latin 89" by (simp_all add: is_latin_def)
  have k: "kw_wenben \<in> set task_keywords" by (simp add: task_keywords_def kw_wenben_def)
  have t: "asc ''X'' @ kw_wenben @ asc ''Y'' = 88 # kw_wenben @ [89]"
    "asc ''X '' @ kw_wenben @ asc '' Y'' = [88, 32] @ kw_wenben @ [32, 89]"
    "(asc ''X'' @ kw_wenben @ asc ''Y'') ! (1 - 1) = 88"
    "(asc ''X'' @ kw_wenben @ asc ''Y'') ! 5 = 89"
    "5 < length (asc ''X'' @ kw_wenben @ asc ''Y'')"
    by (simp_all add: asc_def kw_wenben_def)
  from tagger_boundary_rule [where L = ascii_lib and start = 1 and stop = 5
        and all_text = "asc ''X'' @ kw_wenben @ asc ''Y''" and x = 88 and y = 89
        and phrase = kw_wenben] l k t
  show ?thesis by simp
qed

text \<open>
  The claim fails with a Latin letter on one side only: in the letter \<open>a\<close> followed by
  \<open>shijue duomotai lijie\<close> the keyword \<open>duomotai lijie\<close>, which ends the phrase, has an
  ideograph before it and the end of the text after it, and is returned.
\<close>

theorem tagger_boundary_rule_counterexample:
  "is_substr kw_shijue_duomotai (asc ''a'' @ kw_shijue_duomotai)
   \<and> is_latin ((asc ''a'' @ kw_shijue_duomotai) ! 0)
   \<and> task_type ascii_lib (asc ''a'' @ kw_shijue_duomotai) = Some kw_duomotai"
  unfolding task_type_find
  by (simp add: task_keywords_def ev_kw ev_tag asc_def is_substr_def py_find_def startswith_def
                is_cjk_def py_isspace_def punct_marks_def is_latin_def)

section \<open>Properties of the exception handling\<close>

text \<open>
  The only exception that leaves the conversion of a count is the \<open>OverflowError\<close> of
  \<open>int\<close> on an infinity: \<open>float\<close> raises \<open>ValueError\<close> only, which the handler of the field
  catches, as it does the \<open>ValueError\<close> of \<open>int\<close> on a NaN.
\<close>

lemma py_float_error: "py_float L s = Inl e \<Longrightarrow> e = ValueError"
  by (auto simp: py_float_def Let_def split: option.splits if_splits prod.splits)












section \<open>Properties of the conversion of counts\<close>

text \<open>
  On a numeral the steps before \<open>float\<close> change nothing: it has no letter to put in upper
  case or to remove, no whitespace and no underscore, and \<open>float\<close> reads it as the
  nearest float.
\<close>

lemma plain_numeral:
  "list_all is_adigit ip \<Longrightarrow> list_all is_adigit fp \<Longrightarrow> plain (numeral_text ip fp)"
  by (auto simp: plain_def numeral_text_def list_all_iff)

lemma plain_range: "plain s \<Longrightarrow> c \<in> set s \<Longrightarrow> 46 \<le> c \<and> c \<le> 57"
  by (auto simp: plain_def list_all_iff is_adigit_def)

lemma py_upper_append: "py_upper L (s @ t) = py_upper L s @ py_upper L t"
  by (simp add: py_upper_def)

lemma py_upper_plain: "plain s \<Longrightarrow> py_upper L s = s"
proof (induction s)
  case Nil
  show ?case by (simp add: py_upper_def)
next
  case (Cons c s)
  then have "46 \<le> c \<and> c \<le> 57" "plain s" by (auto simp: plain_def is_adigit_def)
  with Cons.IH show ?case by (simp add: py_upper_def ascii_upper_def)
qed

lemma is_substr_single: "is_substr [a] s \<longleftrightarrow> a \<in> set s"
proof -
  have "find_from [a] i s \<noteq> None \<longleftrightarrow> a \<in> set s" for i
    by (induction s arbitrary: i) (auto simp: startswith_def)
  then show ?thesis by (simp add: is_substr_def py_find_def)
qed

lemma py_replace_single: "py_replace [a] [] s = filter (\<lambda>c. c \<noteq> a) s"
proof -
  have "replace_skip [a] [] 0 s = filter (\<lambda>c. c \<noteq> a) s"
    by (induction s) (auto simp: startswith_def)
  then show ?thesis by (simp add: py_replace_def)
qed

lemma filter_plain: "plain s \<Longrightarrow> 57 < a \<Longrightarrow> filter (\<lambda>c. c \<noteq> a) s = s"
  by (rule filter_True) (auto dest: plain_range)

lemma to_ascii_plain: "plain s \<Longrightarrow> to_ascii L s = s"
  by (induction s) (auto simp: plain_def is_adigit_def)

lemma c_strip_plain: "plain s \<Longrightarrow> c_strip s = s"
proof -
  assume p: "plain s"
  have ns: "\<forall>c \<in> set xs. \<not> c_isspace c \<Longrightarrow> dropWhile c_isspace xs = xs" for xs
    by (cases xs) auto
  have "\<forall>c \<in> set s. \<not> c_isspace c" using p by (auto simp: c_isspace_def dest: plain_range)
  then show ?thesis using ns [of s] ns [of "rev s"] by (simp add: c_strip_def)
qed

lemma drop_underscores_plain: "plain s \<Longrightarrow> prev \<noteq> 95 \<Longrightarrow> drop_underscores prev s = Some s"
proof (induction s arbitrary: prev)
  case Nil
  then show ?case by simp
next
  case (Cons c s)
  then have "46 \<le> c \<and> c \<le> 57" "plain s" by (auto simp: plain_def is_adigit_def)
  with Cons show ?case by simp
qed

lemma parse_decimal_numeral:
  assumes "ip \<noteq> []" "list_all is_adigit ip" "list_all is_adigit fp"
  shows "parse_decimal (numeral_text ip fp) = Some (digits_val (ip @ fp), - int (length fp))"
proof -
  have ip: "takeWhile is_adigit (ip @ 46 # fp) = ip" "dropWhile is_adigit (ip @ 46 # fp) = 46 # fp"
    "takeWhile is_adigit ip = ip" "dropWhile is_adigit ip = []"
    using assms(2) by (simp_all add: list_all_iff takeWhile_append2 dropWhile_append2 is_adigit_def)
  have fp: "takeWhile is_adigit fp = fp" "dropWhile is_adigit fp = []"
    using assms(3) by (simp_all add: list_all_iff)
  show ?thesis
  proof (cases "fp = []")
    case True
    show ?thesis
      by (simp add: parse_decimal_def numeral_text_def True Let_def ip(3,4) assms(1))
  next
    case False
    have "parse_decimal (ip @ [46] @ fp) = Some (digits_val (ip @ fp), - int (length fp))"
      by (simp add: parse_decimal_def Let_def ip(1,2) fp assms(1))
    then show ?thesis using False by (simp add: numeral_text_def)
  qed
qed

lemma py_float_numeral:
  assumes "ip \<noteq> []" "list_all is_adigit ip" "list_all is_adigit fp"
  shows "py_float L (numeral_text ip fp) = Inr (numeral_float ip fp)"
proof -
  let ?s = "numeral_text ip fp"
  have p: "plain ?s" using assms by (simp add: plain_numeral)
  obtain c cs where s: "?s = c # cs" "is_adigit c"
    using assms(1,2) by (cases ip; cases "fp = []") (auto simp: numeral_text_def)
  have c: "c \<noteq> 43" "c \<noteq> 45" "ascii_lower c = c" "c \<noteq> 105" "c \<noteq> 110"
    using s(2) by (auto simp: is_adigit_def ascii_lower_def)
  have pre: "drop_underscores 0 (c_strip (to_ascii L ?s)) = Some ?s"
    using p by (simp add: to_ascii_plain c_strip_plain drop_underscores_plain)
  have dec: "parse_decimal (c # cs) = Some (digits_val (ip @ fp), - int (length fp))"
    using parse_decimal_numeral [OF assms] s(1) by simp
  show ?thesis
    unfolding py_float_def pre
    by (simp add: s(1) c asc_def dec numeral_float_def)
qed




lemma unparsable_none:
  assumes "py_float L (float_arg L text) = Inl e"
  shows "parse_magnitude L text = Inr None"
proof -
  have "py_float L (float_arg L text) = Inl ValueError"
    using assms py_float_error [OF assms] by simp
  then show ?thesis
    by (auto simp: parse_magnitude_def float_arg_def scaled_def Let_def)
qed

lemma letters: "asc ''K'' = [75]" "asc ''k'' = [107]" "asc ''M'' = [77]" "asc ''m'' = [109]"
  "asc ''B'' = [66]" "asc ''b'' = [98]"
  by (simp_all add: asc_def)

lemma suffix_cases:
  assumes "suffix_factor c = Some f"
  obtains "c = 75 \<or> c = 107" "f = 1000" | "c = 77 \<or> c = 109" "f = 1000000"
    | "c = 66 \<or> c = 98" "f = 1000000000"
  using assms by (auto simp: suffix_factor_def split: if_splits)

lemma suffixed_numeral:
  assumes "ip \<noteq> []" "list_all is_adigit ip" "list_all is_adigit fp"
    and "suffix_factor c = Some f"
  shows "parse_magnitude L (numeral_text ip fp @ [c])
           = int_result (py_int (fmul (numeral_float ip fp) (of_small_int f)))"
proof -
  let ?s = "numeral_text ip fp"
  have p: "plain ?s" using assms(2,3) by (rule plain_numeral)
  have notin: "a \<notin> set ?s" if "57 < a" for a using plain_range [OF p] that by force
  have fl: "py_float L ?s = Inr (numeral_float ip fp)" using assms(1-3) by (rule py_float_numeral)
  have up: "py_upper L (?s @ [c]) = ?s @ [ascii_upper c]" if "c < 128"
    using that by (simp add: py_upper_append py_upper_plain [OF p]) (simp add: py_upper_def)
  from assms(4) show ?thesis
  proof (cases rule: suffix_cases)
    case 1
    then have u: "py_upper L (?s @ [c]) = ?s @ [75]" using up by (auto simp: ascii_upper_def)
    show ?thesis
      unfolding parse_magnitude_def u letters 1(2)
      by (simp add: is_substr_single scaled_def py_replace_single filter_plain [OF p] fl
                    int_result_def)
  next
    case 2
    then have u: "py_upper L (?s @ [c]) = ?s @ [77]" using up by (auto simp: ascii_upper_def)
    show ?thesis
      unfolding parse_magnitude_def u letters 2(2)
      by (simp add: is_substr_single scaled_def py_replace_single filter_plain [OF p] fl
                    int_result_def notin)
  next
    case 3
    then have u: "py_upper L (?s @ [c]) = ?s @ [66]" using up by (auto simp: ascii_upper_def)
    show ?thesis
      unfolding parse_magnitude_def u letters 3(2)
      by (simp add: is_substr_single scaled_def py_replace_single filter_plain [OF p] fl
                    int_result_def notin)
  qed
qed

lemma bare_numeral:
  assumes "ip \<noteq> []" "list_all is_adigit ip" "list_all is_adigit fp"
  shows "parse_magnitude L (numeral_text ip fp) = int_result (py_int (numeral_float ip fp))"
proof -
  let ?s = "numeral_text ip fp"
  have p: "plain ?s" using assms(2,3) by (rule plain_numeral)
  have notin: "a \<notin> set ?s" if "57 < a" for a using plain_range [OF p] that by force
  have fl: "py_float L ?s = Inr (numeral_float ip fp)" using assms(1-3) by (rule py_float_numeral)
  show ?thesis
    unfolding parse_magnitude_def py_upper_plain [OF p] letters
    by (simp add: is_substr_single notin fl int_result_def)
qed

text \<open>
  The three examples of the specification, by evaluation of the rounding; and a text with
  the letter inside, which the specification does not read and the code does.
\<close>

lemmas ev_parse = py_float_def c_strip_def c_isspace_def is_adigit_def parse_decimal_def
  parse_exponent_def digits_val_def Let_def asc_def ascii_lower_def
lemmas ev_round = round_dec_def round_ratio_def of_small_int_def Let_def bit_length.simps
lemmas ev_spec = spec_magnitude_def spec_numeral_def suffix_factor_def is_adigit_def
  digits_val_def Let_def asc_def

lemma numeral_float_values:
  "numeral_float [50] [48, 49] = Finite 4526117625507348 (- 51)"
  "numeral_float [49, 57] [51] = Finite 5432467050515661 (- 48)"
  "numeral_float [50] [] = Finite 4503599627370496 (- 51)"
  by (simp_all add: numeral_float_def digits_val_def ev_round)

lemma fmul_values:
  "fmul (Finite 4526117625507348 (- 51)) (of_small_int 1000) = Finite 8840073487319039 (- 42)"
  "fmul (Finite 5432467050515661 (- 48)) (of_small_int 1000) = Finite 5305143604019200 (- 38)"
  "fmul (Finite 4503599627370496 (- 51)) (of_small_int 1000000) = Finite 8589934592000000 (- 32)"
  by (simp_all add: ev_round)

lemma py_int_values:
  "py_int (Finite 8840073487319039 (- 42)) = Inr 2009"
  "py_int (Finite 5305143604019200 (- 38)) = Inr 19300"
  "py_int (Finite 8589934592000000 (- 32)) = Inr 2000000"
  by simp_all

lemma magnitude_examples:
  "parse_magnitude L (asc ''19.3k'') = Inr (Some 19300)"
  "parse_magnitude L (asc ''2M'') = Inr (Some 2000000)"
  "parse_magnitude L (asc ''abc'') = Inr None"
proof -
  have "parse_magnitude L (numeral_text (asc ''19'') (asc ''3'') @ [107]) = Inr (Some 19300)"
    by (subst suffixed_numeral [where f = 1000])
       (simp_all add: asc_def is_adigit_def suffix_factor_def numeral_float_values
          fmul_values py_int_values int_result_def)
  then show "parse_magnitude L (asc ''19.3k'') = Inr (Some 19300)"
    by (simp add: numeral_text_def asc_def)
  have "parse_magnitude L (numeral_text (asc ''2'') [] @ [77]) = Inr (Some 2000000)"
    by (subst suffixed_numeral [where f = 1000000])
       (simp_all add: asc_def is_adigit_def suffix_factor_def numeral_float_values
          fmul_values py_int_values int_result_def)
  then show "parse_magnitude L (asc ''2M'') = Inr (Some 2000000)"
    by (simp add: numeral_text_def asc_def)
  have "float_arg L (asc ''abc'') = asc ''AC''" by (simp add: float_arg_def ev)
  moreover have "py_float L (asc ''AC'') = Inl ValueError" by (simp add: ev_parse)
  ultimately have "py_float L (float_arg L (asc ''abc'')) = Inl ValueError" by simp
  then show "parse_magnitude L (asc ''abc'') = Inr None" by (rule unparsable_none)
qed

lemma spec_examples:
  "spec_magnitude (asc ''19.3k'') = Some 19300"
  "spec_magnitude (asc ''2M'') = Some 2000000"
  "spec_magnitude (asc ''abc'') = None"
  by (simp_all add: ev_spec)

lemma letter_inside:
  "parse_magnitude L (asc ''1k2'') = Inr (Some 12000)" "spec_magnitude (asc ''1k2'') = None"
proof -
  have t: "py_upper L (asc ''1k2'') = asc ''1K2''" "is_substr (asc ''K'') (asc ''1K2'')"
    "py_replace (asc ''k'') [] (py_replace (asc ''K'') [] (asc ''1K2'')) = asc ''12''"
    by (simp_all add: ev)
  have f: "py_float L (asc ''12'') = Inr (round_dec False 12 0)" by (simp add: ev_parse)
  have r: "round_dec False 12 0 = Finite 6755399441055744 (- 49)" by (simp add: ev_round)
  have m: "fmul (Finite 6755399441055744 (- 49)) (of_small_int 1000)
             = Finite 6597069766656000 (- 39)" by (simp add: ev_round)
  have i: "py_int (Finite 6597069766656000 (- 39)) = Inr 12000" by simp
  show "parse_magnitude L (asc ''1k2'') = Inr (Some 12000)"
    unfolding parse_magnitude_def Let_def t scaled_def by (simp add: t f r m i)
  show "spec_magnitude (asc ''1k2'') = None" by (simp add: ev_spec)
qed

text \<open>
  C3. For the count \<open>2.01k\<close> the code returns 2009, and the value of the numeral times
  1000, cut to an integer, is 2010: \<open>float("2.01") * 1000\<close> is the float
  \<open>2009.9999999999998\<close>, which \<open>int\<close> cuts to 2009. On a numeral followed by a letter the
  result is the integer part of the rounded product of two floats
  (\<open>suffixed_numeral\<close>), not of the product of the numbers.
\<close>

theorem magnitude_float_truncation:
  "parse_magnitude L (asc ''2.01k'') = Inr (Some 2009)
   \<and> spec_magnitude (asc ''2.01k'') = Some 2010"
proof -
  have "parse_magnitude L (numeral_text (asc ''2'') (asc ''01'') @ [107]) = Inr (Some 2009)"
    by (subst suffixed_numeral [where f = 1000])
       (simp_all add: asc_def is_adigit_def suffix_factor_def numeral_float_values
          fmul_values py_int_values int_result_def)
  then have "parse_magnitude L (asc ''2.01k'') = Inr (Some 2009)"
    by (simp add: numeral_text_def asc_def)
  moreover have "spec_magnitude (asc ''2.01k'') = Some 2010" by (simp add: ev_spec)
  ultimately show ?thesis by simp
qed

end
